theory Spec2Isabelle
  imports Complex_Main
begin

section \<open>Point-cloud odometry with IMU attitude fusion\<close>

text \<open>
  A shallow embedding of \<^verbatim>\<open>PointCloudOdometry.cc\<close>: the IMU sample buffer
  (\<^verbatim>\<open>SetImuData\<close>), the per-scan cycle (\<^verbatim>\<open>UpdateEstimate\<close>) and the
  registration, fusion and gating step (\<^verbatim>\<open>UpdateICP\<close>).

  Conventions of the embedding.
  \<^item> On the path of the time stamps (lines 212 and 237 to 263) \<^verbatim>\<open>double\<close> and
    \<^verbatim>\<open>float\<close> values are the reals they denote and every operation rounds to
    nearest, ties to even, at 53 and 24 bits (\<open>to_double\<close>, \<open>to_float\<close>). Elsewhere
    (rotations, norms, thresholds of the gate) floating-point values are real
    numbers and rounding is not modelled.
  \<^item> A \<^verbatim>\<open>ros::Time\<close> is its number of nanoseconds, an integer; the 32-bit range of
    its fields is not modelled.
  \<^item> A member \<^verbatim>\<open>foo_\<close> of the class is the field \<open>foo\<close> of the record \<open>odometry\<close>.
  \<^item> An \<^verbatim>\<open>Eigen::Matrix4f\<close> is kept as its upper-left 3x3 block and the first three
    entries of its last column; the last row is \<open>(0, 0, 0, 1)\<close> for every matrix the
    code builds (an identity with a rotation block, products and inverses of such,
    and the rigid transform returned by the registration).
  \<^item> Reading a \<^verbatim>\<open>std::deque\<close> out of range (\<^verbatim>\<open>operator[]\<close>, \<^verbatim>\<open>front()\<close> on an
    empty deque) is undefined behaviour in C++; the model returns a \<open>fault\<close>.
  \<^item> The registration (PCL's GICP), \<^verbatim>\<open>gu::Rot3::ToEulerZYX\<close> and \<^verbatim>\<open>gu::PoseUpdate\<close>
    are collaborators outside this file and are parameters (\<open>collaborators\<close>).
  \<^item> Publishing on ROS topics and logging do not change the state and are left out.
\<close>

subsection \<open>Vectors and matrices\<close>

datatype vec3 = Vec3 real real real

datatype mat3 = Mat3 real real real real real real real real real
  \<comment> \<open>row-major: \<open>Mat3 m00 m01 m02 m10 m11 m12 m20 m21 m22\<close>\<close>

definition mat3_identity :: mat3 where
  "mat3_identity = Mat3 1 0 0 0 1 0 0 0 1"

definition vec3_zero :: vec3 where
  "vec3_zero = Vec3 0 0 0"

fun vec3_add :: "vec3 \<Rightarrow> vec3 \<Rightarrow> vec3" where
  "vec3_add (Vec3 a b c) (Vec3 x y z) = Vec3 (a + x) (b + y) (c + z)"

fun vec3_neg :: "vec3 \<Rightarrow> vec3" where
  "vec3_neg (Vec3 a b c) = Vec3 (- a) (- b) (- c)"

fun Norm :: "vec3 \<Rightarrow> real" where
  "Norm (Vec3 x y z) = sqrt (x * x + y * y + z * z)"

fun mat3_mul :: "mat3 \<Rightarrow> mat3 \<Rightarrow> mat3" where
  "mat3_mul (Mat3 a00 a01 a02 a10 a11 a12 a20 a21 a22)
            (Mat3 b00 b01 b02 b10 b11 b12 b20 b21 b22) =
     Mat3 (a00 * b00 + a01 * b10 + a02 * b20)
          (a00 * b01 + a01 * b11 + a02 * b21)
          (a00 * b02 + a01 * b12 + a02 * b22)
          (a10 * b00 + a11 * b10 + a12 * b20)
          (a10 * b01 + a11 * b11 + a12 * b21)
          (a10 * b02 + a11 * b12 + a12 * b22)
          (a20 * b00 + a21 * b10 + a22 * b20)
          (a20 * b01 + a21 * b11 + a22 * b21)
          (a20 * b02 + a21 * b12 + a22 * b22)"

fun mat3_vec :: "mat3 \<Rightarrow> vec3 \<Rightarrow> vec3" where
  "mat3_vec (Mat3 a00 a01 a02 a10 a11 a12 a20 a21 a22) (Vec3 x y z) =
     Vec3 (a00 * x + a01 * y + a02 * z)
          (a10 * x + a11 * y + a12 * z)
          (a20 * x + a21 * y + a22 * z)"

fun mat3_det :: "mat3 \<Rightarrow> real" where
  "mat3_det (Mat3 a00 a01 a02 a10 a11 a12 a20 a21 a22) =
     a00 * (a11 * a22 - a12 * a21) - a01 * (a10 * a22 - a12 * a20)
       + a02 * (a10 * a21 - a11 * a20)"

fun mat3_inverse :: "mat3 \<Rightarrow> mat3" where
  "mat3_inverse (Mat3 a00 a01 a02 a10 a11 a12 a20 a21 a22) =
     (let d = mat3_det (Mat3 a00 a01 a02 a10 a11 a12 a20 a21 a22) in
      Mat3 ((a11 * a22 - a12 * a21) / d) ((a02 * a21 - a01 * a22) / d)
           ((a01 * a12 - a02 * a11) / d)
           ((a12 * a20 - a10 * a22) / d) ((a00 * a22 - a02 * a20) / d)
           ((a02 * a10 - a00 * a12) / d)
           ((a10 * a21 - a11 * a20) / d) ((a01 * a20 - a00 * a21) / d)
           ((a00 * a11 - a01 * a10) / d))"

text \<open>
  \<^verbatim>\<open>Eigen::Matrix4f\<close> with last row \<open>(0, 0, 0, 1)\<close>: \<open>block3\<close> is \<^verbatim>\<open>block(0,0,3,3)\<close>,
  \<open>col3\<close> holds \<^verbatim>\<open>(0,3)\<close>, \<^verbatim>\<open>(1,3)\<close>, \<^verbatim>\<open>(2,3)\<close>. Product and inverse are those of 4x4
  matrices of this shape. (Where the block is singular Eigen's \<^verbatim>\<open>inverse()\<close> yields
  non-finite entries; here division by zero yields 0. No statement below depends
  on it.)
\<close>

record mat4 =
  block3 :: mat3
  col3 :: vec3

definition mat4_mul :: "mat4 \<Rightarrow> mat4 \<Rightarrow> mat4" where
  "mat4_mul A B =
     \<lparr>block3 = mat3_mul (block3 A) (block3 B),
      col3 = vec3_add (mat3_vec (block3 A) (col3 B)) (col3 A)\<rparr>"

definition mat4_inverse :: "mat4 \<Rightarrow> mat4" where
  "mat4_inverse A =
     (let Ri = mat3_inverse (block3 A) in
      \<lparr>block3 = Ri, col3 = vec3_neg (mat3_vec Ri (col3 A))\<rparr>)"

subsection \<open>Rounding to binary floating point\<close>

text \<open>
  IEEE 754 rounding to nearest, ties to even, to a significand of \<open>p\<close> bits:
  \<open>u\<close> is the unit in the last place of the binade of \<open>x\<close>. The exponent range is
  not bounded (no subnormal numbers, no overflow); the time values rounded here are
  far inside the normal range of both formats.
\<close>

definition round_half_even :: "real \<Rightarrow> int" where
  "round_half_even q =
     (let f = \<lfloor>q\<rfloor> in
      if q - of_int f < 1 / 2 then f
      else if 1 / 2 < q - of_int f then f + 1
      else if even f then f else f + 1)"

definition round_binary :: "nat \<Rightarrow> real \<Rightarrow> real" where
  "round_binary p x =
     (if x = 0 then 0
      else (let u = 2 powr (of_int \<lfloor>log 2 \<bar>x\<bar>\<rfloor> - (of_nat p - 1))
            in of_int (round_half_even (x / u)) * u))"

definition to_double :: "real \<Rightarrow> real" where
  "to_double x = round_binary 53 x"

definition to_float :: "real \<Rightarrow> real" where
  "to_float x = round_binary 24 x"

subsection \<open>Quaternions and Euler angles (Eigen and tf)\<close>

record quat =
  qw :: real
  qx :: real
  qy :: real
  qz :: real

text \<open>\<^verbatim>\<open>Eigen::Quaternion::toRotationMatrix\<close> (no normalisation).\<close>

definition toRotationMatrix :: "quat \<Rightarrow> mat3" where
  "toRotationMatrix q =
     (let tx = 2 * qx q; ty = 2 * qy q; tz = 2 * qz q;
          twx = tx * qw q; twy = ty * qw q; twz = tz * qw q;
          txx = tx * qx q; txy = ty * qx q; txz = tz * qx q;
          tyy = ty * qy q; tyz = tz * qy q; tzz = tz * qz q
      in Mat3 (1 - (tyy + tzz)) (txy - twz) (txz + twy)
              (txy + twz) (1 - (txx + tzz)) (tyz - twx)
              (txz - twy) (tyz + twx) (1 - (txx + tyy)))"

text \<open>
  The constructor \<^verbatim>\<open>Eigen::Quaternion(const Matrix3&)\<close>: the branch on the trace and,
  when the trace is not positive, on the largest diagonal entry.
\<close>

fun quat_of_mat3 :: "mat3 \<Rightarrow> quat" where
  "quat_of_mat3 (Mat3 m00 m01 m02 m10 m11 m12 m20 m21 m22) =
     (let tr = m00 + m11 + m22 in
      if tr > 0 then
        (let t = sqrt (tr + 1) in
         \<lparr>qw = (1/2) * t, qx = (m21 - m12) * ((1/2) / t),
          qy = (m02 - m20) * ((1/2) / t), qz = (m10 - m01) * ((1/2) / t)\<rparr>)
      else if m22 > (if m11 > m00 then m11 else m00) then
        (let t = sqrt (m22 - m00 - m11 + 1) in
         \<lparr>qw = (m10 - m01) * ((1/2) / t), qx = (m02 + m20) * ((1/2) / t),
          qy = (m21 + m12) * ((1/2) / t), qz = (1/2) * t\<rparr>)
      else if m11 > m00 then
        (let t = sqrt (m11 - m22 - m00 + 1) in
         \<lparr>qw = (m02 - m20) * ((1/2) / t), qx = (m10 + m01) * ((1/2) / t),
          qy = (1/2) * t, qz = (m21 + m12) * ((1/2) / t)\<rparr>)
      else
        (let t = sqrt (m00 - m11 - m22 + 1) in
         \<lparr>qw = (m21 - m12) * ((1/2) / t), qx = (1/2) * t,
          qy = (m10 + m01) * ((1/2) / t), qz = (m20 + m02) * ((1/2) / t)\<rparr>))"

text \<open>\<^verbatim>\<open>tf::Matrix3x3(const tf::Quaternion&)\<close>, that is \<^verbatim>\<open>setRotation\<close>.\<close>

definition tf_Matrix3x3 :: "quat \<Rightarrow> mat3" where
  "tf_Matrix3x3 q =
     (let d = qx q * qx q + qy q * qy q + qz q * qz q + qw q * qw q;
          s = 2 / d;
          xs = qx q * s; ys = qy q * s; zs = qz q * s;
          wx = qw q * xs; wy = qw q * ys; wz = qw q * zs;
          xx = qx q * xs; xy = qx q * ys; xz = qx q * zs;
          yy = qy q * ys; yz = qy q * zs; zz = qz q * zs
      in Mat3 (1 - (yy + zz)) (xy - wz) (xz + wy)
              (xy + wz) (1 - (xx + zz)) (yz - wx)
              (xz - wy) (yz + wx) (1 - (xx + yy)))"

text \<open>The C library's \<^verbatim>\<open>atan2(y, x)\<close> on finite arguments.\<close>

definition atan2 :: "real \<Rightarrow> real \<Rightarrow> real" where
  "atan2 y x =
     (if x > 0 then arctan (y / x)
      else if x < 0 then (if y \<ge> 0 then arctan (y / x) + pi else arctan (y / x) - pi)
      else if y > 0 then pi / 2
      else if y < 0 then - (pi / 2)
      else 0)"

text \<open>
  \<^verbatim>\<open>tf::Matrix3x3::getRPY(roll, pitch, yaw)\<close>: the first solution of
  \<^verbatim>\<open>getEulerYPR\<close>, roll, pitch and yaw about the fixed axes X, Y, Z, so that a
  matrix \<open>Rz(yaw) * Ry(pitch) * Rx(roll)\<close> gives back its angles. The result is
  \<open>(roll, pitch, yaw)\<close>.
\<close>

fun getRPY :: "mat3 \<Rightarrow> real \<times> real \<times> real" where
  "getRPY (Mat3 m00 m01 m02 m10 m11 m12 m20 m21 m22) =
     (if \<bar>m20\<bar> \<ge> 1 then
        (if m20 < 0 then (atan2 m01 m02, pi / 2, 0)
         else (atan2 (- m01) (- m02), - (pi / 2), 0))
      else
        (let pitch = - arcsin m20 in
         (atan2 (m21 / cos pitch) (m22 / cos pitch), pitch,
          atan2 (m10 / cos pitch) (m00 / cos pitch))))"

text \<open>
  \<^verbatim>\<open>Eigen::AngleAxisf(angle, axis)\<close> for the unit axes, as rotation matrices; the
  product of two \<^verbatim>\<open>AngleAxis\<close> values is the product of their rotations.
\<close>

definition AngleAxis_UnitX :: "real \<Rightarrow> mat3" where
  "AngleAxis_UnitX a = Mat3 1 0 0 0 (cos a) (- sin a) 0 (sin a) (cos a)"

definition AngleAxis_UnitY :: "real \<Rightarrow> mat3" where
  "AngleAxis_UnitY a = Mat3 (cos a) 0 (sin a) 0 1 0 (- sin a) 0 (cos a)"

definition AngleAxis_UnitZ :: "real \<Rightarrow> mat3" where
  "AngleAxis_UnitZ a = Mat3 (cos a) (- sin a) 0 (sin a) (cos a) 0 0 0 1"

subsection \<open>State of the odometry object\<close>

record imu_data =
  internal_imu_attitude :: mat4
  internal_imu_attitude_timestamp :: int  \<comment> \<open>\<^verbatim>\<open>ros::Time\<close>, in nanoseconds\<close>

record point_cloud =
  header_stamp :: int  \<comment> \<open>PCL header stamp, in microseconds\<close>
  points :: "vec3 list"

record transform3 =
  translation :: vec3
  rotation :: mat3

record collaborators =
  icp_align :: "point_cloud \<Rightarrow> point_cloud \<Rightarrow> mat4"
    \<comment> \<open>source (query), target (reference) to \<^verbatim>\<open>getFinalTransformation()\<close>\<close>
  ToEulerZYX :: "mat3 \<Rightarrow> vec3"
  PoseUpdate :: "transform3 \<Rightarrow> transform3 \<Rightarrow> transform3"

record odometry =
  initialized :: bool
  query :: point_cloud
  reference :: point_cloud
  stamp :: int  \<comment> \<open>nanoseconds\<close>
  imu_data_has_been_received :: bool
  imu_deque :: "imu_data list"  \<comment> \<open>front of the deque first\<close>
  imu_first_attitude :: mat4
  imu_previous_attitude :: mat4
  imu_current_attitude :: mat4
  imu_change_in_attitude :: mat4
  imu_attitude_deque :: "mat4 list"  \<comment> \<open>front of the deque first\<close>
  use_imu_data :: bool
  check_imu_data :: bool
  imu_threshold :: real
  transform_thresholding :: bool
  max_translation :: real
  max_rotation :: real
  incremental_estimate :: transform3
  integrated_estimate :: transform3

datatype fault = DequeIndexOutOfRange | DequeFrontOnEmpty

subsection \<open>\<^verbatim>\<open>SetImuData\<close>\<close>

definition imu_sample :: "quat \<Rightarrow> int \<Rightarrow> imu_data" where
  "imu_sample quaternion timestamp =
     \<lparr>internal_imu_attitude = \<lparr>block3 = toRotationMatrix quaternion, col3 = vec3_zero\<rparr>,
      internal_imu_attitude_timestamp = timestamp\<rparr>"

definition SetImuData :: "odometry \<Rightarrow> quat \<times> int \<Rightarrow> odometry" where
  "SetImuData s qt =
     (let d = imu_sample (fst qt) (snd qt);
          s1 = (if length (imu_deque s) = 100
                then s\<lparr>imu_deque := tl (imu_deque s) @ [d]\<rparr>
                else s\<lparr>imu_deque := imu_deque s @ [d]\<rparr>)
      in if \<not> imu_data_has_been_received s1
         then s1\<lparr>imu_first_attitude := internal_imu_attitude d,
                 imu_data_has_been_received := True\<rparr>
         else s1)"

subsection \<open>\<^verbatim>\<open>UpdateICP\<close>\<close>

text \<open>
  Lines 325 to 335 and 345 to 356: a rotation block goes through an Eigen quaternion
  and a tf quaternion (same four components) into a \<^verbatim>\<open>tf::Matrix3x3\<close>, whose
  \<^verbatim>\<open>getRPY\<close> is read.
\<close>

definition rpy_of_block :: "mat3 \<Rightarrow> real \<times> real \<times> real" where
  "rpy_of_block R = getRPY (tf_Matrix3x3 (quat_of_mat3 R))"

text \<open>
  Lines 363 to 373: roll and pitch of the IMU change in attitude, yaw of the
  registration, multiplied as \<^verbatim>\<open>AngleAxis(X) * AngleAxis(Y) * AngleAxis(Z)\<close> and written
  over the rotation block of \<open>T\<close>.
\<close>

definition fuse :: "mat4 \<Rightarrow> mat4 \<Rightarrow> mat4" where
  "fuse T imu_attitude_local_copy =
     (let (roll_computed, pitch_computed, yaw_computed) = rpy_of_block (block3 T);
          (roll_imu, pitch_imu, yaw_imu) = rpy_of_block (block3 imu_attitude_local_copy);
          out_roll = roll_imu; out_pitch = pitch_imu; out_yaw = yaw_computed;
          OUTPUT_ROTATION =
            mat3_mul (mat3_mul (AngleAxis_UnitX out_roll) (AngleAxis_UnitY out_pitch))
                     (AngleAxis_UnitZ out_yaw)
      in T\<lparr>block3 := OUTPUT_ROTATION\<rparr>)"

text \<open>Lines 394 to 396: the condition under which the increment is integrated.\<close>

definition gate_accepts :: "collaborators \<Rightarrow> odometry \<Rightarrow> transform3 \<Rightarrow> bool" where
  "gate_accepts L s inc \<longleftrightarrow>
     \<not> transform_thresholding s \<or>
     (Norm (translation inc) \<le> max_translation s \<and>
      Norm (ToEulerZYX L (rotation inc)) \<le> max_rotation s)"

definition integrate :: "collaborators \<Rightarrow> odometry \<Rightarrow> mat4 \<Rightarrow> odometry" where
  "integrate L s T =
     (let s1 = s\<lparr>incremental_estimate := \<lparr>translation = col3 T, rotation = block3 T\<rparr>\<rparr>
      in if gate_accepts L s1 (incremental_estimate s1)
         then s1\<lparr>integrated_estimate :=
                   PoseUpdate L (integrated_estimate s1) (incremental_estimate s1)\<rparr>
         else s1)"

definition UpdateICP :: "collaborators \<Rightarrow> odometry \<Rightarrow> fault + (odometry \<times> bool)" where
  "UpdateICP L s =
     (let T = icp_align L (query s) (reference s) in
      if use_imu_data s then
        (case imu_attitude_deque s of
           [] \<Rightarrow> Inl DequeFrontOnEmpty
         | imu_attitude_local_copy # rest \<Rightarrow>
             Inr (integrate L (s\<lparr>imu_attitude_deque := rest\<rparr>)
                    (fuse T imu_attitude_local_copy), True))
      else Inr (integrate L s T, True))"

subsection \<open>\<^verbatim>\<open>UpdateEstimate\<close>\<close>

text \<open>
  \<^verbatim>\<open>ros::Duration::toSec()\<close> of a duration of \<open>d\<close> nanoseconds: the duration is kept
  as seconds and nanoseconds with \<open>0 \<le> nsec < 10^9\<close>, and the result is
  \<^verbatim>\<open>(double)sec + 1e-9 * (double)nsec\<close>, computed in \<^verbatim>\<open>double\<close>: the literal, the
  product and the sum are each rounded (no fused multiply-add).
\<close>

definition Duration_toSec :: "int \<Rightarrow> real" where
  "Duration_toSec d =
     (let sec = d div 1000000000; nsec = d mod 1000000000
      in to_double (of_int sec + to_double (to_double (1 / 1000000000) * of_int nsec)))"

text \<open>
  Line 239: \<^verbatim>\<open>float cur_ts_diff = (a - b).toSec()\<close> for two \<^verbatim>\<open>ros::Time\<close> values, the
  \<^verbatim>\<open>double\<close> narrowed to \<^verbatim>\<open>float\<close>.
\<close>

definition toSec_diff :: "int \<Rightarrow> int \<Rightarrow> real" where
  "toSec_diff a b = to_float (Duration_toSec (a - b))"

text \<open>
  Lines 238 to 245: the loop over the snapshot, carrying
  \<open>(imu_current_attitude, min_ts_diff)\<close>. Both time differences are \<^verbatim>\<open>float\<close>
  values; the comparisons and \<^verbatim>\<open>fabs\<close> are exact on them. The initial
  \<^verbatim>\<open>min_ts_diff = 1000\<close> is a \<^verbatim>\<open>float\<close>.
\<close>

fun closest_loop :: "imu_data list \<Rightarrow> int \<Rightarrow> mat4 \<times> real \<Rightarrow> mat4 \<times> real" where
  "closest_loop [] stamp' acc = acc"
| "closest_loop (x # xs) stamp' (cur, min_ts_diff) =
     (let cur_ts_diff = toSec_diff (internal_imu_attitude_timestamp x) stamp' in
      if cur_ts_diff < 0 \<and> \<bar>cur_ts_diff\<bar> < \<bar>min_ts_diff\<bar>
      then closest_loop xs stamp' (internal_imu_attitude x, cur_ts_diff)
      else closest_loop xs stamp' (cur, min_ts_diff))"

text \<open>Lines 234 to 245: element 0 is read first, with no check of the size.\<close>

definition find_aligned :: "imu_data list \<Rightarrow> int \<Rightarrow> fault + (mat4 \<times> real)" where
  "find_aligned imu_deque_copy stamp' =
     (case imu_deque_copy of
        [] \<Rightarrow> Inl DequeIndexOutOfRange
      | x0 # _ \<Rightarrow> Inr (closest_loop imu_deque_copy stamp' (internal_imu_attitude x0, 1000)))"

text \<open>
  Lines 259 to 272: the check of the IMU data against \<^verbatim>\<open>float max_ts_diff = 0.05\<close>,
  the \<^verbatim>\<open>double\<close> literal narrowed to \<^verbatim>\<open>float\<close>.
\<close>

definition decide_mode :: "odometry \<Rightarrow> real \<Rightarrow> odometry" where
  "decide_mode s min_ts_diff =
     (if check_imu_data s then
        (let max_ts_diff = to_float (to_double (5 / 100)) in
         if \<bar>min_ts_diff\<bar> < \<bar>max_ts_diff\<bar> then s\<lparr>use_imu_data := True\<rparr>
         else s\<lparr>use_imu_data := False\<rparr>)
      else s)"

text \<open>
  Lines 252 to 281: the change in attitude is computed and enqueued, the IMU data
  are checked, the scan pair advances and the matched attitude becomes the previous
  one.
\<close>

definition record_and_advance :: "odometry \<Rightarrow> point_cloud \<Rightarrow> mat4 \<Rightarrow> real \<Rightarrow> odometry" where
  "record_and_advance s pts cur min_ts_diff =
     (let delta = mat4_mul cur (mat4_inverse (imu_previous_attitude s));
          s1 = s\<lparr>imu_current_attitude := cur,
                 imu_change_in_attitude := delta,
                 imu_attitude_deque := imu_attitude_deque s @ [delta]\<rparr>;
          s2 = decide_mode s1 min_ts_diff;
          s3 = s2\<lparr>reference := query s2\<rparr>;
          s4 = s3\<lparr>query := pts\<rparr>
      in s4\<lparr>imu_previous_attitude := imu_current_attitude s4\<rparr>)"

text \<open>
  Line 212: \<^verbatim>\<open>stamp_.fromNSec(points.header.stamp * 1e3)\<close>. The stamp is converted to
  \<^verbatim>\<open>double\<close>, the product is rounded to \<^verbatim>\<open>double\<close> and converted to the
  \<^verbatim>\<open>uint64_t\<close> that \<^verbatim>\<open>fromNSec\<close> takes.
\<close>

definition scan_stamp :: "point_cloud \<Rightarrow> int" where
  "scan_stamp pts = \<lfloor>to_double (to_double (of_int (header_stamp pts)) * 1000)\<rfloor>"

definition UpdateEstimate ::
  "collaborators \<Rightarrow> odometry \<Rightarrow> point_cloud \<Rightarrow> fault + (odometry \<times> bool)" where
  "UpdateEstimate L s0 pts =
     (let imu_deque_copy = imu_deque s0;
          s = s0\<lparr>stamp := scan_stamp pts\<rparr>
      in
      if \<not> initialized s then
        (if use_imu_data s then
           (if imu_data_has_been_received s
            then Inr (s\<lparr>query := pts, imu_previous_attitude := imu_first_attitude s,
                        initialized := True\<rparr>, False)
            else Inr (s\<lparr>query := pts\<rparr>, False))
         else Inr (s\<lparr>query := pts, initialized := True\<rparr>, False))
      else
        (case find_aligned imu_deque_copy (stamp s) of
           Inl e \<Rightarrow> Inl e
         | Inr (cur, min_ts_diff) \<Rightarrow>
             UpdateICP L (record_and_advance s pts cur min_ts_diff)))"

definition GetIncrementalEstimate :: "odometry \<Rightarrow> transform3" where
  "GetIncrementalEstimate s = incremental_estimate s"

definition GetIntegratedEstimate :: "odometry \<Rightarrow> transform3" where
  "GetIntegratedEstimate s = integrated_estimate s"

subsection \<open>Sequences of calls\<close>

datatype call = ImuSample quat int | Scan point_cloud

fun run :: "collaborators \<Rightarrow> odometry \<Rightarrow> call list \<Rightarrow> fault + odometry" where
  "run L s [] = Inr s"
| "run L s (ImuSample q t # cs) = run L (SetImuData s (q, t)) cs"
| "run L s (Scan pts # cs) =
     (case UpdateEstimate L s pts of
        Inl e \<Rightarrow> Inl e
      | Inr (s', updated) \<Rightarrow> run L s' cs)"

subsection \<open>Concrete instances\<close>

text \<open>
  Instances at which the theorems below are evaluated. \<open>example_collaborators T\<close> is a
  registration that returns \<open>T\<close>, Euler angles read with \<open>getRPY\<close>, and the pose
  composition \<open>(t1 + R1 * t2, R1 * R2)\<close>. \<open>example_odometry\<close> is an object before its
  first scan and first IMU sample, with thresholding on, \<open>max_translation = 0.3\<close> and
  \<open>max_rotation = 0.5\<close>.
\<close>

definition mat4_identity :: mat4 where
  "mat4_identity = \<lparr>block3 = mat3_identity, col3 = vec3_zero\<rparr>"

definition identity_pose :: transform3 where
  "identity_pose = \<lparr>translation = vec3_zero, rotation = mat3_identity\<rparr>"

definition example_collaborators :: "mat4 \<Rightarrow> collaborators" where
  "example_collaborators T =
     \<lparr>icp_align = (\<lambda>source target. T),
      ToEulerZYX = (\<lambda>R. case getRPY R of (roll, pitch, yaw) \<Rightarrow> Vec3 roll pitch yaw),
      PoseUpdate = (\<lambda>t1 t2.
        \<lparr>translation = vec3_add (translation t1) (mat3_vec (rotation t1) (translation t2)),
         rotation = mat3_mul (rotation t1) (rotation t2)\<rparr>)\<rparr>"

definition empty_cloud :: "int \<Rightarrow> point_cloud" where
  "empty_cloud t = \<lparr>header_stamp = t, points = []\<rparr>"

definition example_odometry :: odometry where
  "example_odometry =
     \<lparr>initialized = False,
      query = empty_cloud 0,
      reference = empty_cloud 0,
      stamp = 0,
      imu_data_has_been_received = False,
      imu_deque = [],
      imu_first_attitude = mat4_identity,
      imu_previous_attitude = mat4_identity,
      imu_current_attitude = mat4_identity,
      imu_change_in_attitude = mat4_identity,
      imu_attitude_deque = [],
      use_imu_data = True,
      check_imu_data = False,
      imu_threshold = 1,
      transform_thresholding = True,
      max_translation = 3 / 10,
      max_rotation = 1 / 2,
      incremental_estimate = identity_pose,
      integrated_estimate = identity_pose\<rparr>"

definition unit_quat :: quat where
  "unit_quat = \<lparr>qw = 1, qx = 0, qy = 0, qz = 0\<rparr>"

section \<open>Properties\<close>

subsection \<open>Rounding at given values\<close>

lemma round_half_even_of_int [simp]: "round_half_even (of_int n) = n"
  by (simp add: round_half_even_def)

lemma round_binary_0 [simp]: "round_binary p 0 = 0"
  by (simp add: round_binary_def)

lemma round_binary_between:
  assumes "x \<noteq> 0" and "2 powr of_int k \<le> \<bar>x\<bar>" and "\<bar>x\<bar> < 2 powr (of_int k + 1)"
  shows "round_binary p x =
           of_int (round_half_even (x / 2 powr (of_int k - (of_nat p - 1)))) *
             2 powr (of_int k - (of_nat p - 1))"
proof -
  have "\<lfloor>log 2 \<bar>x\<bar>\<rfloor> = k"
    using assms by (subst floor_log_eq_powr_iff) auto
  then show ?thesis using assms(1) by (simp add: round_binary_def Let_def)
qed

lemma round_binary_of_int:
  assumes "\<bar>n\<bar> < 2 ^ p"
  shows "round_binary p (of_int n) = of_int n"
proof (cases "n = 0")
  case True
  then show ?thesis by simp
next
  case False
  define e where "e = \<lfloor>log 2 \<bar>real_of_int n\<bar>\<rfloor>"
  have pos: "1 \<le> \<bar>real_of_int n\<bar>" using False by (simp flip: of_int_abs) 
  have "0 \<le> log 2 \<bar>real_of_int n\<bar>" using pos by simp
  then have e0: "0 \<le> e" by (simp add: e_def)
  have "\<bar>real_of_int n\<bar> < 2 ^ p"
    using assms by (metis of_int_abs of_int_less_iff of_int_numeral of_int_power)
  then have "log 2 \<bar>real_of_int n\<bar> < real p"
    using pos by (simp add: log_less_iff powr_realpow)
  then have "e < int p" unfolding e_def by linarith
  then obtain k where k: "int p - 1 - e = int k"
    using nonneg_int_cases [of "int p - 1 - e"] by fastforce
  have "real_of_int e - (real p - 1) = - real k"
    using k by linarith
  then have u: "2 powr (real_of_int e - (real p - 1)) = 1 / 2 ^ k"
    by (simp add: powr_minus powr_realpow divide_simps)
  have "real_of_int n / (1 / 2 ^ k) = of_int (n * 2 ^ k)" by simp
  then have "round_half_even (real_of_int n / (1 / 2 ^ k)) = n * 2 ^ k"
    by (simp only: round_half_even_of_int)
  then show ?thesis
    using False by (simp add: round_binary_def Let_def e_def [symmetric] u)
qed

lemma round_binary_at:
  assumes "0 < p" and "2 ^ (p - 1) \<le> \<bar>x\<bar> * 2 ^ n" and "\<bar>x\<bar> * 2 ^ n < 2 ^ p"
  shows "round_binary p x = of_int (round_half_even (x * 2 ^ n)) / 2 ^ n"
proof -
  have x: "x \<noteq> 0"
  proof
    assume "x = 0"
    with assms(2) have "(2 :: real) ^ (p - 1) \<le> 0" by simp
    moreover have "(0 :: real) < 2 ^ (p - 1)" by simp
    ultimately show False by linarith
  qed
  have p: "real p - 1 = real (p - 1)" using assms(1) by simp
  have e: "2 powr (of_int (int (p - 1) - int n)) = (2 ^ (p - 1) / 2 ^ n :: real)"
    by (simp add: powr_diff powr_realpow)
  have e1: "2 powr (of_int (int (p - 1) - int n) + 1) = (2 ^ p / 2 ^ n :: real)"
  proof -
    have "real_of_int (int (p - 1) - int n) + 1 = real p - real n" using assms(1) by simp
    then show ?thesis by (simp add: powr_diff powr_realpow)
  qed
  have u: "2 powr (of_int (int (p - 1) - int n) - (of_nat p - 1)) = (1 / 2 ^ n :: real)"
  proof -
    have "real_of_int (int (p - 1) - int n) - (real p - 1) = - real n" using assms(1) by simp
    then show ?thesis by (simp add: powr_minus powr_realpow divide_simps)
  qed
  have "round_binary p x =
      of_int (round_half_even (x / 2 powr (of_int (int (p - 1) - int n) - (of_nat p - 1)))) *
             2 powr (of_int (int (p - 1) - int n) - (of_nat p - 1))"
    using x
  proof (rule round_binary_between)
    show "2 powr real_of_int (int (p - 1) - int n) \<le> \<bar>x\<bar>"
      unfolding e using assms(2) by (simp add: divide_simps)
    show "\<bar>x\<bar> < 2 powr (real_of_int (int (p - 1) - int n) + 1)"
      unfolding e1 using assms(3) by (simp add: divide_simps)
  qed
  then show ?thesis unfolding u by simp
qed

lemma round_binary_above:
  assumes "0 < p" and "2 ^ (p - 1) * 2 ^ n \<le> \<bar>x\<bar>" and "\<bar>x\<bar> < 2 ^ p * 2 ^ n"
  shows "round_binary p x = of_int (round_half_even (x / 2 ^ n)) * 2 ^ n"
proof -
  have x: "x \<noteq> 0"
  proof
    assume "x = 0"
    with assms(2) have "(2 :: real) ^ (p - 1) * 2 ^ n \<le> 0" by simp
    moreover have "(0 :: real) < 2 ^ (p - 1) * 2 ^ n" by simp
    ultimately show False by linarith
  qed
  have e: "2 powr (of_int (int (p - 1) + int n)) = (2 ^ (p - 1) * 2 ^ n :: real)"
    by (simp add: powr_add powr_realpow)
  have e1: "2 powr (of_int (int (p - 1) + int n) + 1) = (2 ^ p * 2 ^ n :: real)"
  proof -
    have "real_of_int (int (p - 1) + int n) + 1 = real p + real n" using assms(1) by simp
    then show ?thesis by (simp add: powr_add powr_realpow)
  qed
  have u: "2 powr (of_int (int (p - 1) + int n) - (of_nat p - 1)) = (2 ^ n :: real)"
  proof -
    have "real_of_int (int (p - 1) + int n) - (real p - 1) = real n" using assms(1) by simp
    then show ?thesis by (simp add: powr_realpow)
  qed
  have "round_binary p x =
      of_int (round_half_even (x / 2 powr (of_int (int (p - 1) + int n) - (of_nat p - 1)))) *
             2 powr (of_int (int (p - 1) + int n) - (of_nat p - 1))"
    using x
  proof (rule round_binary_between)
    show "2 powr real_of_int (int (p - 1) + int n) \<le> \<bar>x\<bar>"
      unfolding e using assms(2) .
    show "\<bar>x\<bar> < 2 powr (real_of_int (int (p - 1) + int n) + 1)"
      unfolding e1 using assms(3) .
  qed
  then show ?thesis unfolding u .
qed

lemma to_double_of_int: "\<bar>n\<bar> < 2 ^ 53 \<Longrightarrow> to_double (of_int n) = of_int n"
  unfolding to_double_def by (rule round_binary_of_int)

lemma to_float_of_int: "\<bar>n\<bar> < 2 ^ 24 \<Longrightarrow> to_float (of_int n) = of_int n"
  unfolding to_float_def by (rule round_binary_of_int)

lemma to_double_0 [simp]: "to_double 0 = 0"
  by (simp add: to_double_def)

lemma to_float_0 [simp]: "to_float 0 = 0"
  by (simp add: to_float_def)

lemma to_double_1e9: "to_double (1 / 1000000000) = 4835703278458517 / 2 ^ 82"
proof -
  have "round_half_even (1 / 1000000000 * 2 ^ 82) = 4835703278458517"
    by (simp add: round_half_even_def Let_def)
  then show ?thesis
    unfolding to_double_def by (subst round_binary_at [where n = 82]) simp_all
qed

text \<open>The value of \<^verbatim>\<open>float max_ts_diff = 0.05\<close>: the \<^verbatim>\<open>float\<close> next above 0.05.\<close>

lemma max_ts_diff_value: "to_float (to_double (5 / 100)) = 13421773 / 268435456"
proof -
  have "round_half_even (5 / 100 * 2 ^ 57) = 7205759403792794"
    by (simp add: round_half_even_def Let_def)
  then have d: "to_double (5 / 100) = 7205759403792794 / 2 ^ 57"
    unfolding to_double_def by (subst round_binary_at [where n = 57]) simp_all
  have "round_half_even (7205759403792794 / 2 ^ 57 * 2 ^ 28) = 13421773"
    by (simp add: round_half_even_def Let_def)
  then have "to_float (7205759403792794 / 2 ^ 57) = 13421773 / 2 ^ 28"
    unfolding to_float_def by (subst round_binary_at [where n = 28]) simp_all
  then show ?thesis unfolding d by simp
qed

subsection \<open>Time differences at given values\<close>

text \<open>
  The \<^verbatim>\<open>float\<close> time difference of line 239 for some durations, each rounding step
  evaluated: the product \<^verbatim>\<open>1e-9 * nsec\<close>, the sum with the seconds, and the
  narrowing to \<^verbatim>\<open>float\<close>.
\<close>

lemma toSec_diff_40ms:
  assumes "a - b = (- 40000000)"
  shows "toSec_diff a b = (- 5368709) / 134217728"
proof -
  have "round_half_even (4835703278458517 / 2 ^ 82 * 960000000 * 2 ^ 53) = 8646911284551353"
    by (simp add: round_half_even_def Let_def)
  then have p: "to_double (4835703278458517 / 2 ^ 82 * 960000000) = 8646911284551353 / 2 ^ 53"
    unfolding to_double_def by (subst round_binary_at [where n = 53]) simp_all
  have "round_half_even (((- 1) + 8646911284551353 / 2 ^ 53) * 2 ^ 57) = (- 5764607523034224)"
    by (simp add: round_half_even_def Let_def)
  then have s: "to_double ((- 1) + 8646911284551353 / 2 ^ 53) = (- 5764607523034224) / 2 ^ 57"
    unfolding to_double_def by (subst round_binary_at [where n = 57]) simp_all
  have "round_half_even ((- 5764607523034224) / 2 ^ 57 * 2 ^ 28) = (- 10737418)"
    by (simp add: round_half_even_def Let_def)
  then have f: "to_float ((- 5764607523034224) / 2 ^ 57) = (- 10737418) / 2 ^ 28"
    unfolding to_float_def by (subst round_binary_at [where n = 28]) simp_all
  have dm: "((- 40000000) :: int) div 1000000000 = (- 1)" "((- 40000000) :: int) mod 1000000000 = 960000000"
    by simp_all
  have D: "Duration_toSec ((- 40000000)) = (- 5764607523034224) / 2 ^ 57"
    by (simp only: Duration_toSec_def Let_def dm to_double_1e9 of_int_numeral
        of_int_neg_numeral of_int_minus of_int_1 of_int_0 p s)
  have "toSec_diff a b = to_float ((- 5764607523034224) / 2 ^ 57)"
    by (simp only: toSec_diff_def assms D)
  then show ?thesis
    unfolding f by simp
qed

lemma toSec_diff_just_under_50ms:
  assumes "a - b = (- 49999999)"
  shows "toSec_diff a b = (- 13421773) / 268435456"
proof -
  have "round_half_even (4835703278458517 / 2 ^ 82 * 950000001 * 2 ^ 53) = 8556839301011142"
    by (simp add: round_half_even_def Let_def)
  then have p: "to_double (4835703278458517 / 2 ^ 82 * 950000001) = 8556839301011142 / 2 ^ 53"
    unfolding to_double_def by (subst round_binary_at [where n = 53]) simp_all
  have "round_half_even (((- 1) + 8556839301011142 / 2 ^ 53) * 2 ^ 57) = (- 7205759259677600)"
    by (simp add: round_half_even_def Let_def)
  then have s: "to_double ((- 1) + 8556839301011142 / 2 ^ 53) = (- 7205759259677600) / 2 ^ 57"
    unfolding to_double_def by (subst round_binary_at [where n = 57]) simp_all
  have "round_half_even ((- 7205759259677600) / 2 ^ 57 * 2 ^ 28) = (- 13421773)"
    by (simp add: round_half_even_def Let_def)
  then have f: "to_float ((- 7205759259677600) / 2 ^ 57) = (- 13421773) / 2 ^ 28"
    unfolding to_float_def by (subst round_binary_at [where n = 28]) simp_all
  have dm: "((- 49999999) :: int) div 1000000000 = (- 1)" "((- 49999999) :: int) mod 1000000000 = 950000001"
    by simp_all
  have D: "Duration_toSec ((- 49999999)) = (- 7205759259677600) / 2 ^ 57"
    by (simp only: Duration_toSec_def Let_def dm to_double_1e9 of_int_numeral
        of_int_neg_numeral of_int_minus of_int_1 of_int_0 p s)
  have "toSec_diff a b = to_float ((- 7205759259677600) / 2 ^ 57)"
    by (simp only: toSec_diff_def assms D)
  then show ?thesis
    unfolding f by simp
qed

lemma toSec_diff_50ms_before:
  assumes "a - b = (- 50000000)"
  shows "toSec_diff a b = (- 13421773) / 268435456"
proof -
  have "round_half_even (4835703278458517 / 2 ^ 82 * 950000000 * 2 ^ 53) = 8556839292003943"
    by (simp add: round_half_even_def Let_def)
  then have p: "to_double (4835703278458517 / 2 ^ 82 * 950000000) = 8556839292003943 / 2 ^ 53"
    unfolding to_double_def by (subst round_binary_at [where n = 53]) simp_all
  have "round_half_even (((- 1) + 8556839292003943 / 2 ^ 53) * 2 ^ 57) = (- 7205759403792784)"
    by (simp add: round_half_even_def Let_def)
  then have s: "to_double ((- 1) + 8556839292003943 / 2 ^ 53) = (- 7205759403792784) / 2 ^ 57"
    unfolding to_double_def by (subst round_binary_at [where n = 57]) simp_all
  have "round_half_even ((- 7205759403792784) / 2 ^ 57 * 2 ^ 28) = (- 13421773)"
    by (simp add: round_half_even_def Let_def)
  then have f: "to_float ((- 7205759403792784) / 2 ^ 57) = (- 13421773) / 2 ^ 28"
    unfolding to_float_def by (subst round_binary_at [where n = 28]) simp_all
  have dm: "((- 50000000) :: int) div 1000000000 = (- 1)" "((- 50000000) :: int) mod 1000000000 = 950000000"
    by simp_all
  have D: "Duration_toSec ((- 50000000)) = (- 7205759403792784) / 2 ^ 57"
    by (simp only: Duration_toSec_def Let_def dm to_double_1e9 of_int_numeral
        of_int_neg_numeral of_int_minus of_int_1 of_int_0 p s)
  have "toSec_diff a b = to_float ((- 7205759403792784) / 2 ^ 57)"
    by (simp only: toSec_diff_def assms D)
  then show ?thesis
    unfolding f by simp
qed

lemma toSec_diff_150ms_before:
  assumes "a - b = (- 150000000)"
  shows "toSec_diff a b = (- 5033165) / 33554432"
proof -
  have "round_half_even (4835703278458517 / 2 ^ 82 * 850000000 * 2 ^ 53) = 7656119366529844"
    by (simp add: round_half_even_def Let_def)
  then have p: "to_double (4835703278458517 / 2 ^ 82 * 850000000) = 7656119366529844 / 2 ^ 53"
    unfolding to_double_def by (subst round_binary_at [where n = 53]) simp_all
  have "round_half_even (((- 1) + 7656119366529844 / 2 ^ 53) * 2 ^ 55) = (- 5404319552844592)"
    by (simp add: round_half_even_def Let_def)
  then have s: "to_double ((- 1) + 7656119366529844 / 2 ^ 53) = (- 5404319552844592) / 2 ^ 55"
    unfolding to_double_def by (subst round_binary_at [where n = 55]) simp_all
  have "round_half_even ((- 5404319552844592) / 2 ^ 55 * 2 ^ 26) = (- 10066330)"
    by (simp add: round_half_even_def Let_def)
  then have f: "to_float ((- 5404319552844592) / 2 ^ 55) = (- 10066330) / 2 ^ 26"
    unfolding to_float_def by (subst round_binary_at [where n = 26]) simp_all
  have dm: "((- 150000000) :: int) div 1000000000 = (- 1)" "((- 150000000) :: int) mod 1000000000 = 850000000"
    by simp_all
  have D: "Duration_toSec ((- 150000000)) = (- 5404319552844592) / 2 ^ 55"
    by (simp only: Duration_toSec_def Let_def dm to_double_1e9 of_int_numeral
        of_int_neg_numeral of_int_minus of_int_1 of_int_0 p s)
  have "toSec_diff a b = to_float ((- 5404319552844592) / 2 ^ 55)"
    by (simp only: toSec_diff_def assms D)
  then show ?thesis
    unfolding f by simp
qed

lemma toSec_diff_50ms_after:
  assumes "a - b = 50000000"
  shows "toSec_diff a b = 13421773 / 268435456"
proof -
  have "round_half_even (4835703278458517 / 2 ^ 82 * 50000000 * 2 ^ 57) = 7205759403792794"
    by (simp add: round_half_even_def Let_def)
  then have p: "to_double (4835703278458517 / 2 ^ 82 * 50000000) = 7205759403792794 / 2 ^ 57"
    unfolding to_double_def by (subst round_binary_at [where n = 57]) simp_all
  have "round_half_even ((0 + 7205759403792794 / 2 ^ 57) * 2 ^ 57) = 7205759403792794"
    by (simp add: round_half_even_def Let_def)
  then have s: "to_double (0 + 7205759403792794 / 2 ^ 57) = 7205759403792794 / 2 ^ 57"
    unfolding to_double_def by (subst round_binary_at [where n = 57]) simp_all
  have "round_half_even (7205759403792794 / 2 ^ 57 * 2 ^ 28) = 13421773"
    by (simp add: round_half_even_def Let_def)
  then have f: "to_float (7205759403792794 / 2 ^ 57) = 13421773 / 2 ^ 28"
    unfolding to_float_def by (subst round_binary_at [where n = 28]) simp_all
  have dm: "(50000000 :: int) div 1000000000 = 0" "(50000000 :: int) mod 1000000000 = 50000000"
    by simp_all
  have D: "Duration_toSec (50000000) = 7205759403792794 / 2 ^ 57"
    by (simp only: Duration_toSec_def Let_def dm to_double_1e9 of_int_numeral
        of_int_neg_numeral of_int_minus of_int_1 of_int_0 p s)
  have "toSec_diff a b = to_float (7205759403792794 / 2 ^ 57)"
    by (simp only: toSec_diff_def assms D)
  then show ?thesis
    unfolding f by simp
qed

lemma toSec_diff_half_second:
  assumes "a - b = (- 500000000)"
  shows "toSec_diff a b = (- 1) / 2"
proof -
  have "round_half_even (4835703278458517 / 2 ^ 82 * 500000000 * 2 ^ 53) = 4503599627370496"
    by (simp add: round_half_even_def Let_def)
  then have p: "to_double (4835703278458517 / 2 ^ 82 * 500000000) = 4503599627370496 / 2 ^ 53"
    unfolding to_double_def by (subst round_binary_at [where n = 53]) simp_all
  have "round_half_even (((- 1) + 4503599627370496 / 2 ^ 53) * 2 ^ 53) = (- 4503599627370496)"
    by (simp add: round_half_even_def Let_def)
  then have s: "to_double ((- 1) + 4503599627370496 / 2 ^ 53) = (- 4503599627370496) / 2 ^ 53"
    unfolding to_double_def by (subst round_binary_at [where n = 53]) simp_all
  have "round_half_even ((- 4503599627370496) / 2 ^ 53 * 2 ^ 24) = (- 8388608)"
    by (simp add: round_half_even_def Let_def)
  then have f: "to_float ((- 4503599627370496) / 2 ^ 53) = (- 8388608) / 2 ^ 24"
    unfolding to_float_def by (subst round_binary_at [where n = 24]) simp_all
  have dm: "((- 500000000) :: int) div 1000000000 = (- 1)" "((- 500000000) :: int) mod 1000000000 = 500000000"
    by simp_all
  have D: "Duration_toSec ((- 500000000)) = (- 4503599627370496) / 2 ^ 53"
    by (simp only: Duration_toSec_def Let_def dm to_double_1e9 of_int_numeral
        of_int_neg_numeral of_int_minus of_int_1 of_int_0 p s)
  have "toSec_diff a b = to_float ((- 4503599627370496) / 2 ^ 53)"
    by (simp only: toSec_diff_def assms D)
  then show ?thesis
    unfolding f by simp
qed

lemma toSec_diff_tie:
  assumes "a - b = (- 100000001000)"
  shows "toSec_diff a b = (- 100)"
proof -
  have "round_half_even (4835703278458517 / 2 ^ 82 * 999999000 * 2 ^ 53) = 9007190247541738"
    by (simp add: round_half_even_def Let_def)
  then have p: "to_double (4835703278458517 / 2 ^ 82 * 999999000) = 9007190247541738 / 2 ^ 53"
    unfolding to_double_def by (subst round_binary_at [where n = 53]) simp_all
  have "round_half_even (((- 101) + 9007190247541738 / 2 ^ 53) * 2 ^ 46) = (- 7036874488135144)"
    by (simp add: round_half_even_def Let_def)
  then have s: "to_double ((- 101) + 9007190247541738 / 2 ^ 53) = (- 7036874488135144) / 2 ^ 46"
    unfolding to_double_def by (subst round_binary_at [where n = 46]) simp_all
  have "round_half_even ((- 7036874488135144) / 2 ^ 46 * 2 ^ 17) = (- 13107200)"
    by (simp add: round_half_even_def Let_def)
  then have f: "to_float ((- 7036874488135144) / 2 ^ 46) = (- 13107200) / 2 ^ 17"
    unfolding to_float_def by (subst round_binary_at [where n = 17]) simp_all
  have dm: "((- 100000001000) :: int) div 1000000000 = (- 101)" "((- 100000001000) :: int) mod 1000000000 = 999999000"
    by simp_all
  have D: "Duration_toSec ((- 100000001000)) = (- 7036874488135144) / 2 ^ 46"
    by (simp only: Duration_toSec_def Let_def dm to_double_1e9 of_int_numeral
        of_int_neg_numeral of_int_minus of_int_1 of_int_0 p s)
  have "toSec_diff a b = to_float ((- 7036874488135144) / 2 ^ 46)"
    by (simp only: toSec_diff_def assms D)
  then show ?thesis
    unfolding f by simp
qed

lemma toSec_diff_whole:
  assumes "a - b = n * 1000000000" and "\<bar>n\<bar> < 2 ^ 24"
  shows "toSec_diff a b = of_int n"
proof -
  have "\<bar>n\<bar> < 2 ^ 53" using assms(2) by simp
  then have "Duration_toSec (n * 1000000000) = of_int n"
    by (simp add: Duration_toSec_def to_double_of_int)
  then show ?thesis
    using assms(2) by (simp add: toSec_diff_def assms(1) to_float_of_int)
qed

lemma scan_stamp_exact:
  assumes "\<bar>header_stamp pts\<bar> * 1000 < 2 ^ 53"
  shows "scan_stamp pts = header_stamp pts * 1000"
proof -
  have "\<bar>header_stamp pts\<bar> < 2 ^ 53" using assms by simp
  then have a: "to_double (of_int (header_stamp pts)) = of_int (header_stamp pts)"
    by (rule to_double_of_int)
  have "\<bar>header_stamp pts * 1000\<bar> < 2 ^ 53" using assms by (simp add: abs_mult)
  then have "to_double (of_int (header_stamp pts * 1000)) = of_int (header_stamp pts * 1000)"
    by (rule to_double_of_int)
  moreover have "real_of_int (header_stamp pts) * 1000 = of_int (header_stamp pts * 1000)"
    by simp
  ultimately show ?thesis
    unfolding scan_stamp_def a by (simp only: floor_of_int)
qed

text \<open>
  Line 212 at a stamp of the size of a Unix time: the product is not a
  \<^verbatim>\<open>double\<close>, and the scan time is 128 ns before the stamp.
\<close>

lemma scan_stamp_epoch:
  "scan_stamp \<lparr>header_stamp = 1700000000050000, points = []\<rparr> = 1700000000049999872"
proof -
  have a: "to_double (of_int 1700000000050000) = 1700000000050000"
    using to_double_of_int [of 1700000000050000] by simp
  have "round_half_even (1700000000050000 * 1000 / 2 ^ 8) = 6640625000195312"
    by (simp add: round_half_even_def Let_def)
  then have "to_double (1700000000050000 * 1000) = 6640625000195312 * 2 ^ 8"
    unfolding to_double_def by (subst round_binary_above [where n = 8]) simp_all
  then have "to_double (1700000000050000 * 1000) = of_int 1700000000049999872"
    by simp
  then show ?thesis
    unfolding scan_stamp_def by (simp only: point_cloud.simps a floor_of_int)
qed

subsection \<open>The IMU sample buffer\<close>

lemma imu_deque_SetImuData:
  "imu_deque (SetImuData s qt) =
     (if length (imu_deque s) = 100 then tl (imu_deque s) @ [imu_sample (fst qt) (snd qt)]
      else imu_deque s @ [imu_sample (fst qt) (snd qt)])"
  by (simp add: SetImuData_def Let_def)

lemma imu_deque_SetImuData_drop:
  "length (imu_deque s) \<le> 100 \<Longrightarrow>
   imu_deque (SetImuData s qt) =
     drop (Suc (length (imu_deque s)) - 100) (imu_deque s @ [imu_sample (fst qt) (snd qt)])"
  by (cases "imu_deque s") (auto simp: imu_deque_SetImuData Suc_diff_le)

lemma imu_deque_foldl:
  "length (imu_deque s) \<le> 100 \<Longrightarrow>
   imu_deque (foldl SetImuData s qts) =
     drop (length (imu_deque s) + length qts - 100)
          (imu_deque s @ map (\<lambda>qt. imu_sample (fst qt) (snd qt)) qts)"
proof (induction qts arbitrary: s)
  case Nil
  then show ?case by simp
next
  case (Cons qt qts)
  let ?d = "imu_sample (fst qt) (snd qt)"
  let ?s = "SetImuData s qt"
  have eq: "imu_deque ?s = drop (Suc (length (imu_deque s)) - 100) (imu_deque s @ [?d])"
    using Cons.prems by (rule imu_deque_SetImuData_drop)
  have len: "length (imu_deque ?s) \<le> 100"
    using Cons.prems by (simp add: eq)
  have "imu_deque (foldl SetImuData ?s qts) =
      drop (length (imu_deque ?s) + length qts - 100)
        (imu_deque ?s @ map (\<lambda>qt. imu_sample (fst qt) (snd qt)) qts)"
    using len by (rule Cons.IH)
  also have "\<dots> = drop (length (imu_deque s) + length (qt # qts) - 100)
          (imu_deque s @ map (\<lambda>qt. imu_sample (fst qt) (snd qt)) (qt # qts))"
  proof (cases "length (imu_deque s) = 100")
    case True
    then show ?thesis by (simp add: eq)
  next
    case False
    with Cons.prems have "length (imu_deque s) < 100" by simp
    then show ?thesis by (simp add: eq)
  qed
  finally show ?case by simp
qed

text \<open>
  Claim C7. \<open>SetImuData\<close> is a total function of the state (a push cannot fail).
  Starting from an object whose buffer is empty, after any sequence of pushes the
  buffer holds at most 100 samples; it holds the pushed samples in arrival order,
  without the oldest ones beyond the last 100; and after more than 100 pushes it
  holds exactly 100 samples, the 100 pushed last.
\<close>

theorem buffer_keeps_last_100:
  assumes "imu_deque s = []"
  shows "length (imu_deque (foldl SetImuData s qts)) \<le> 100 \<and>
         imu_deque (foldl SetImuData s qts) =
           drop (length qts - 100) (map (\<lambda>qt. imu_sample (fst qt) (snd qt)) qts) \<and>
         (length qts > 100 \<longrightarrow> length (imu_deque (foldl SetImuData s qts)) = 100)"
proof -
  have eq: "imu_deque (foldl SetImuData s qts) =
      drop (length qts - 100) (map (\<lambda>qt. imu_sample (fst qt) (snd qt)) qts)"
    using imu_deque_foldl [of s qts] assms by simp
  show ?thesis
    unfolding eq by auto
qed

theorem buffer_keeps_last_100_witness:
  "length (imu_deque (foldl SetImuData example_odometry
            (map (\<lambda>i. (unit_quat, int i)) [0..<103]))) = 100 \<and>
   imu_deque (foldl SetImuData example_odometry (map (\<lambda>i. (unit_quat, int i)) [0..<103])) =
     map (\<lambda>i. imu_sample unit_quat (int i)) [3..<103]"
proof -
  have e: "imu_deque example_odometry = []"
    by (simp add: example_odometry_def)
  have d: "drop 3 [0..<103] = [3..<103]"
    by simp
  show ?thesis
    using buffer_keeps_last_100 [OF e, of "map (\<lambda>i. (unit_quat, int i)) [0..<103]"]
    by (simp add: drop_map d comp_def)
qed

subsection \<open>Registration, fusion and gating\<close>

lemma incremental_integrate:
  "incremental_estimate (integrate L s T) = \<lparr>translation = col3 T, rotation = block3 T\<rparr>"
  by (simp add: integrate_def Let_def)

lemma integrated_integrate:
  "integrated_estimate (integrate L s T) =
     (if gate_accepts L s \<lparr>translation = col3 T, rotation = block3 T\<rparr>
      then PoseUpdate L (integrated_estimate s) \<lparr>translation = col3 T, rotation = block3 T\<rparr>
      else integrated_estimate s)"
  by (simp add: integrate_def Let_def gate_accepts_def)

lemma integrate_frame:
  "initialized (integrate L s T) = initialized s"
  "imu_attitude_deque (integrate L s T) = imu_attitude_deque s"
  "use_imu_data (integrate L s T) = use_imu_data s"
  "imu_deque (integrate L s T) = imu_deque s"
  "imu_change_in_attitude (integrate L s T) = imu_change_in_attitude s"
  by (simp_all add: integrate_def Let_def)

lemma col3_fuse: "col3 (fuse T d) = col3 T"
  by (simp add: fuse_def Let_def split: prod.splits)

lemma block3_fuse:
  "block3 (fuse T d) =
     mat3_mul (mat3_mul (AngleAxis_UnitX (fst (rpy_of_block (block3 d))))
                        (AngleAxis_UnitY (fst (snd (rpy_of_block (block3 d))))))
              (AngleAxis_UnitZ (snd (snd (rpy_of_block (block3 T)))))"
  by (simp add: fuse_def Let_def split: prod.splits)

lemma UpdateICP_cases:
  "UpdateICP L s =
     (if use_imu_data s \<and> imu_attitude_deque s = [] then Inl DequeFrontOnEmpty
      else Inr (integrate L
                 (if use_imu_data s then s\<lparr>imu_attitude_deque := tl (imu_attitude_deque s)\<rparr>
                  else s)
                 (if use_imu_data s
                  then fuse (icp_align L (query s) (reference s)) (hd (imu_attitude_deque s))
                  else icp_align L (query s) (reference s)), True))"
  by (cases "imu_attitude_deque s") (simp_all add: UpdateICP_def Let_def)

lemma gate_accepts_tl [simp]:
  "gate_accepts L (s\<lparr>imu_attitude_deque := q\<rparr>) inc = gate_accepts L s inc"
  by (simp add: gate_accepts_def)

lemma UpdateICP_integrated:
  assumes "UpdateICP L s = Inr (s', b)"
  shows "integrated_estimate s' =
           (if gate_accepts L s (incremental_estimate s')
            then PoseUpdate L (integrated_estimate s) (incremental_estimate s')
            else integrated_estimate s)"
  using assms
  by (auto simp: UpdateICP_cases incremental_integrate integrated_integrate split: if_splits)

lemma UpdateICP_incremental:
  assumes "UpdateICP L s = Inr (s', b)"
  shows "incremental_estimate s' =
           (let T = icp_align L (query s) (reference s);
                T' = (if use_imu_data s then fuse T (hd (imu_attitude_deque s)) else T)
            in \<lparr>translation = col3 T', rotation = block3 T'\<rparr>)"
  using assms
  by (auto simp: UpdateICP_cases incremental_integrate Let_def split: if_splits)

lemma UpdateICP_frame:
  assumes "UpdateICP L s = Inr (s', b)"
  shows "initialized s' = initialized s" "use_imu_data s' = use_imu_data s"
    "imu_deque s' = imu_deque s" "imu_change_in_attitude s' = imu_change_in_attitude s"
    "imu_attitude_deque s' =
       (if use_imu_data s then tl (imu_attitude_deque s) else imu_attitude_deque s)"
    "b = True"
  using assms
  by (auto simp: UpdateICP_cases integrate_frame split: if_splits)

subsection \<open>The cycle\<close>

lemma find_aligned_cases:
  "find_aligned xs t =
     (if xs = [] then Inl DequeIndexOutOfRange
      else Inr (closest_loop xs t (internal_imu_attitude (hd xs), 1000)))"
  by (cases xs) (simp_all add: find_aligned_def)

lemma decide_mode_use:
  "use_imu_data (decide_mode s d) =
     (if check_imu_data s then \<bar>d\<bar> < 13421773 / 268435456 else use_imu_data s)"
  unfolding decide_mode_def Let_def max_ts_diff_value by simp

lemma decide_mode_frame:
  "initialized (decide_mode s d) = initialized s"
  "imu_attitude_deque (decide_mode s d) = imu_attitude_deque s"
  "imu_deque (decide_mode s d) = imu_deque s"
  "imu_change_in_attitude (decide_mode s d) = imu_change_in_attitude s"
  "imu_current_attitude (decide_mode s d) = imu_current_attitude s"
  "transform_thresholding (decide_mode s d) = transform_thresholding s"
  "max_translation (decide_mode s d) = max_translation s"
  "max_rotation (decide_mode s d) = max_rotation s"
  "query (decide_mode s d) = query s"
  "reference (decide_mode s d) = reference s"
  "integrated_estimate (decide_mode s d) = integrated_estimate s"
  "incremental_estimate (decide_mode s d) = incremental_estimate s"
  by (simp_all add: decide_mode_def Let_def)

lemma record_and_advance_fields:
  "initialized (record_and_advance s pts cur d) = initialized s"
  "imu_deque (record_and_advance s pts cur d) = imu_deque s"
  "imu_attitude_deque (record_and_advance s pts cur d) =
     imu_attitude_deque s @ [mat4_mul cur (mat4_inverse (imu_previous_attitude s))]"
  "imu_change_in_attitude (record_and_advance s pts cur d) =
     mat4_mul cur (mat4_inverse (imu_previous_attitude s))"
  "use_imu_data (record_and_advance s pts cur d) =
     (if check_imu_data s then \<bar>d\<bar> < 13421773 / 268435456 else use_imu_data s)"
  "query (record_and_advance s pts cur d) = pts"
  "reference (record_and_advance s pts cur d) = query s"
  "integrated_estimate (record_and_advance s pts cur d) = integrated_estimate s"
  by (simp_all add: record_and_advance_def Let_def decide_mode_frame decide_mode_use)

lemma gate_accepts_record_and_advance:
  "gate_accepts L (record_and_advance s pts cur d) inc = gate_accepts L s inc"
  by (simp add: gate_accepts_def record_and_advance_def Let_def decide_mode_frame)

lemma gate_accepts_stamp [simp]:
  "gate_accepts L (s\<lparr>stamp := t\<rparr>) inc = gate_accepts L s inc"
  by (simp add: gate_accepts_def)

text \<open>A scan in the initialised state: the matched sample, then the rest of the cycle.\<close>

lemma UpdateEstimate_initialized:
  "initialized s \<Longrightarrow>
   UpdateEstimate L s pts =
     (if imu_deque s = [] then Inl DequeIndexOutOfRange
      else (let cm = closest_loop (imu_deque s) (scan_stamp pts)
                       (internal_imu_attitude (hd (imu_deque s)), 1000)
            in UpdateICP L (record_and_advance (s\<lparr>stamp := scan_stamp pts\<rparr>) pts
                             (fst cm) (snd cm))))"
  by (simp add: UpdateEstimate_def find_aligned_cases Let_def split: prod.splits)

lemma UpdateEstimate_uninitialized:
  "\<not> initialized s \<Longrightarrow>
   UpdateEstimate L s pts =
     Inr (if use_imu_data s \<and> \<not> imu_data_has_been_received s
          then s\<lparr>stamp := scan_stamp pts, query := pts\<rparr>
          else if use_imu_data s
          then s\<lparr>stamp := scan_stamp pts, query := pts,
                 imu_previous_attitude := imu_first_attitude s, initialized := True\<rparr>
          else s\<lparr>stamp := scan_stamp pts, query := pts, initialized := True\<rparr>, False)"
  by (simp add: UpdateEstimate_def Let_def)

text \<open>Within a cycle the queue of changes in attitude is not empty when its front is taken.\<close>

lemma UpdateICP_record_and_advance:
  "\<exists>s'. UpdateICP L (record_and_advance s pts cur d) = Inr (s', True)"
  by (simp add: UpdateICP_cases record_and_advance_fields)

lemma UpdateEstimate_succeeds:
  "initialized s \<Longrightarrow> imu_deque s \<noteq> [] \<Longrightarrow> \<exists>s'. UpdateEstimate L s pts = Inr (s', True)"
  by (simp add: UpdateEstimate_initialized Let_def UpdateICP_record_and_advance)

lemma UpdateEstimate_no_front_fault:
  "UpdateEstimate L s pts \<noteq> Inl DequeFrontOnEmpty"
proof (cases "initialized s")
  case True
  show ?thesis
  proof (cases "imu_deque s = []")
    case True
    with \<open>initialized s\<close> show ?thesis by (simp add: UpdateEstimate_initialized)
  next
    case False
    with \<open>initialized s\<close> UpdateEstimate_succeeds [of s L pts] show ?thesis by auto
  qed
next
  case False
  then show ?thesis by (simp add: UpdateEstimate_uninitialized)
qed

lemma UpdateEstimate_initialized_preserved:
  assumes "initialized s" "UpdateEstimate L s pts = Inr (s', b)"
  shows "initialized s'"
proof -
  from assms have ne: "imu_deque s \<noteq> []"
    by (auto simp: UpdateEstimate_initialized split: if_splits)
  let ?cm = "closest_loop (imu_deque s) (scan_stamp pts)
                       (internal_imu_attitude (hd (imu_deque s)), 1000)"
  let ?r = "record_and_advance (s\<lparr>stamp := scan_stamp pts\<rparr>) pts (fst ?cm) (snd ?cm)"
  from assms ne have "UpdateICP L ?r = Inr (s', b)"
    by (simp add: UpdateEstimate_initialized Let_def)
  then have "initialized s' = initialized ?r"
    by (rule UpdateICP_frame)
  then show ?thesis using assms(1) by (simp add: record_and_advance_fields)
qed

lemma SetImuData_initialized: "initialized (SetImuData s qt) = initialized s"
  by (simp add: SetImuData_def Let_def)

lemma run_initialized:
  "initialized s \<Longrightarrow> run L s cs = Inr s' \<Longrightarrow> initialized s'"
proof (induction cs arbitrary: s)
  case Nil
  then show ?case by simp
next
  case (Cons c cs)
  show ?case
  proof (cases c)
    case (ImuSample q t)
    with Cons.prems have "run L (SetImuData s (q, t)) cs = Inr s'" by simp
    moreover have "initialized (SetImuData s (q, t))"
      using Cons.prems(1) by (simp add: SetImuData_initialized)
    ultimately show ?thesis by (rule Cons.IH [rotated])
  next
    case (Scan pts)
    with Cons.prems obtain s1 b where
      u: "UpdateEstimate L s pts = Inr (s1, b)" and r: "run L s1 cs = Inr s'"
      by (auto split: sum.splits)
    from Cons.prems(1) u have "initialized s1"
      by (rule UpdateEstimate_initialized_preserved)
    then show ?thesis using r by (rule Cons.IH)
  qed
qed

lemma UpdateEstimate_cycle:
  assumes "initialized s" "UpdateEstimate L s pts = Inr (s', b)"
  shows "imu_deque s \<noteq> [] \<and>
         UpdateICP L (record_and_advance (s\<lparr>stamp := scan_stamp pts\<rparr>) pts
            (fst (closest_loop (imu_deque s) (scan_stamp pts)
                    (internal_imu_attitude (hd (imu_deque s)), 1000)))
            (snd (closest_loop (imu_deque s) (scan_stamp pts)
                    (internal_imu_attitude (hd (imu_deque s)), 1000)))) = Inr (s', b)"
  using assms by (auto simp: UpdateEstimate_initialized Let_def split: if_splits)

lemma UpdateEstimate_use_imu:
  assumes "initialized s" "UpdateEstimate L s pts = Inr (s', b)"
  shows "use_imu_data s' =
           (if check_imu_data s
            then \<bar>snd (closest_loop (imu_deque s) (scan_stamp pts)
                         (internal_imu_attitude (hd (imu_deque s)), 1000))\<bar>
                   < 13421773 / 268435456
            else use_imu_data s)"
proof -
  from UpdateEstimate_cycle [OF assms] have
    u: "UpdateICP L (record_and_advance (s\<lparr>stamp := scan_stamp pts\<rparr>) pts
            (fst (closest_loop (imu_deque s) (scan_stamp pts)
                    (internal_imu_attitude (hd (imu_deque s)), 1000)))
            (snd (closest_loop (imu_deque s) (scan_stamp pts)
                    (internal_imu_attitude (hd (imu_deque s)), 1000)))) = Inr (s', b)"
    by simp
  show ?thesis
    unfolding UpdateICP_frame(2) [OF u] by (simp add: record_and_advance_fields)
qed

lemma UpdateEstimate_change:
  assumes "initialized s" "UpdateEstimate L s pts = Inr (s', b)"
  shows "imu_change_in_attitude s' =
           mat4_mul (fst (closest_loop (imu_deque s) (scan_stamp pts)
                            (internal_imu_attitude (hd (imu_deque s)), 1000)))
                    (mat4_inverse (imu_previous_attitude s))"
proof -
  from UpdateEstimate_cycle [OF assms] have
    u: "UpdateICP L (record_and_advance (s\<lparr>stamp := scan_stamp pts\<rparr>) pts
            (fst (closest_loop (imu_deque s) (scan_stamp pts)
                    (internal_imu_attitude (hd (imu_deque s)), 1000)))
            (snd (closest_loop (imu_deque s) (scan_stamp pts)
                    (internal_imu_attitude (hd (imu_deque s)), 1000)))) = Inr (s', b)"
    by simp
  show ?thesis
    unfolding UpdateICP_frame(4) [OF u] by (simp add: record_and_advance_fields)
qed

lemma UpdateEstimate_queue:
  assumes "initialized s" "UpdateEstimate L s pts = Inr (s', b)"
  shows "imu_attitude_deque s' =
           (if use_imu_data s' then tl (imu_attitude_deque s @ [imu_change_in_attitude s'])
            else imu_attitude_deque s @ [imu_change_in_attitude s'])"
proof -
  from UpdateEstimate_cycle [OF assms] have
    u: "UpdateICP L (record_and_advance (s\<lparr>stamp := scan_stamp pts\<rparr>) pts
            (fst (closest_loop (imu_deque s) (scan_stamp pts)
                    (internal_imu_attitude (hd (imu_deque s)), 1000)))
            (snd (closest_loop (imu_deque s) (scan_stamp pts)
                    (internal_imu_attitude (hd (imu_deque s)), 1000)))) = Inr (s', b)"
    by simp
  show ?thesis
    unfolding UpdateICP_frame(5) [OF u] UpdateICP_frame(2) [OF u] UpdateICP_frame(4) [OF u]
    by (simp add: record_and_advance_fields)
qed

lemma UpdateEstimate_incremental:
  assumes "initialized s" "UpdateEstimate L s pts = Inr (s', b)"
  shows "incremental_estimate s' =
           \<lparr>translation = col3 (icp_align L pts (query s)),
            rotation =
              (if use_imu_data s'
               then block3 (fuse (icp_align L pts (query s))
                              (hd (imu_attitude_deque s @ [imu_change_in_attitude s'])))
               else block3 (icp_align L pts (query s)))\<rparr>"
proof -
  from UpdateEstimate_cycle [OF assms] have
    u: "UpdateICP L (record_and_advance (s\<lparr>stamp := scan_stamp pts\<rparr>) pts
            (fst (closest_loop (imu_deque s) (scan_stamp pts)
                    (internal_imu_attitude (hd (imu_deque s)), 1000)))
            (snd (closest_loop (imu_deque s) (scan_stamp pts)
                    (internal_imu_attitude (hd (imu_deque s)), 1000)))) = Inr (s', b)"
    by simp
  show ?thesis
    unfolding UpdateICP_incremental [OF u] UpdateICP_frame(2) [OF u] UpdateICP_frame(4) [OF u]
    by (simp add: record_and_advance_fields Let_def col3_fuse)
qed

lemma UpdateEstimate_integrated:
  assumes "initialized s" "UpdateEstimate L s pts = Inr (s', b)"
  shows "integrated_estimate s' =
           (if gate_accepts L s (incremental_estimate s')
            then PoseUpdate L (integrated_estimate s) (incremental_estimate s')
            else integrated_estimate s)"
proof -
  from UpdateEstimate_cycle [OF assms] have
    u: "UpdateICP L (record_and_advance (s\<lparr>stamp := scan_stamp pts\<rparr>) pts
            (fst (closest_loop (imu_deque s) (scan_stamp pts)
                    (internal_imu_attitude (hd (imu_deque s)), 1000)))
            (snd (closest_loop (imu_deque s) (scan_stamp pts)
                    (internal_imu_attitude (hd (imu_deque s)), 1000)))) = Inr (s', b)"
    by simp
  show ?thesis
    unfolding UpdateICP_integrated [OF u]
    by (simp add: record_and_advance_fields gate_accepts_record_and_advance)
qed

lemma UpdateEstimate_imu_deque:
  assumes "UpdateEstimate L s pts = Inr (s', b)"
  shows "imu_deque s' = imu_deque s"
proof (cases "initialized s")
  case True
  from UpdateEstimate_cycle [OF True assms] have
    u: "UpdateICP L (record_and_advance (s\<lparr>stamp := scan_stamp pts\<rparr>) pts
            (fst (closest_loop (imu_deque s) (scan_stamp pts)
                    (internal_imu_attitude (hd (imu_deque s)), 1000)))
            (snd (closest_loop (imu_deque s) (scan_stamp pts)
                    (internal_imu_attitude (hd (imu_deque s)), 1000)))) = Inr (s', b)"
    by simp
  show ?thesis
    unfolding UpdateICP_frame(3) [OF u] by (simp add: record_and_advance_fields)
next
  case False
  with assms show ?thesis by (auto simp: UpdateEstimate_uninitialized split: if_splits)
qed

lemma SetImuData_nonempty: "imu_deque (SetImuData s qt) \<noteq> []"
  by (simp add: imu_deque_SetImuData)

lemma run_imu_deque_nonempty:
  "run L s cs = Inr s' \<Longrightarrow> imu_deque s \<noteq> [] \<or> (\<exists>q t. ImuSample q t \<in> set cs) \<Longrightarrow>
   imu_deque s' \<noteq> []"
proof (induction cs arbitrary: s)
  case Nil
  then show ?case by simp
next
  case (Cons c cs)
  show ?case
  proof (cases c)
    case (ImuSample q t)
    with Cons.prems have "run L (SetImuData s (q, t)) cs = Inr s'" by simp
    then show ?thesis
      by (rule Cons.IH) (simp add: SetImuData_nonempty)
  next
    case (Scan pts)
    with Cons.prems obtain s1 b where
      u: "UpdateEstimate L s pts = Inr (s1, b)" and r: "run L s1 cs = Inr s'"
      by (auto split: sum.splits)
    have "imu_deque s1 = imu_deque s" using u by (rule UpdateEstimate_imu_deque)
    with Cons.prems(2) Scan have "imu_deque s1 \<noteq> [] \<or> (\<exists>q t. ImuSample q t \<in> set cs)"
      by auto
    with r show ?thesis by (rule Cons.IH)
  qed
qed

subsection \<open>The gate on the incremental transform\<close>

text \<open>
  Claim C3. For every run of \<open>UpdateICP\<close> that returns: with thresholding disabled the
  increment is integrated; with thresholding enabled it is integrated when the norm
  of its translation is at most \<open>max_translation\<close> and the norm of the Euler angles of
  its rotation is at most \<open>max_rotation\<close>, and left out when either norm is larger.
  Both bounds are inclusive: an increment whose two norms equal the two bounds is
  integrated, and one whose norm exceeds a bound by any \<open>\<epsilon> > 0\<close> is not. The
  condition of the source is \<open>gate_accepts\<close>.
\<close>

theorem gate_is_inclusive:
  assumes "UpdateICP L s = Inr (s', b)"
  shows "let inc = incremental_estimate s';
             tn = Norm (translation inc);
             rn = Norm (ToEulerZYX L (rotation inc));
             accepted = PoseUpdate L (integrated_estimate s) inc
         in (\<not> transform_thresholding s \<longrightarrow> integrated_estimate s' = accepted) \<and>
            (transform_thresholding s \<longrightarrow> tn \<le> max_translation s \<longrightarrow> rn \<le> max_rotation s \<longrightarrow>
               integrated_estimate s' = accepted) \<and>
            (transform_thresholding s \<longrightarrow> max_translation s < tn \<or> max_rotation s < rn \<longrightarrow>
               integrated_estimate s' = integrated_estimate s) \<and>
            (tn = max_translation s \<longrightarrow> rn = max_rotation s \<longrightarrow>
               integrated_estimate s' = accepted) \<and>
            (\<forall>\<epsilon>>0. transform_thresholding s \<longrightarrow>
               tn = max_translation s + \<epsilon> \<or> rn = max_rotation s + \<epsilon> \<longrightarrow>
               integrated_estimate s' = integrated_estimate s) \<and>
            (gate_accepts L s inc \<longleftrightarrow>
               \<not> transform_thresholding s \<or> (tn \<le> max_translation s \<and> rn \<le> max_rotation s))"
  unfolding Let_def UpdateICP_integrated [OF assms]
  by (auto simp: gate_accepts_def)

theorem gate_is_inclusive_witness:
  "Norm (Vec3 (3 / 10) 0 0) =
     max_translation (example_odometry\<lparr>use_imu_data := False, max_rotation := pi / 2\<rparr>) \<and>
   Norm (ToEulerZYX
           (example_collaborators
              \<lparr>block3 = Mat3 0 (- 1) 0 1 0 0 0 0 1, col3 = Vec3 (3 / 10) 0 0\<rparr>)
           (Mat3 0 (- 1) 0 1 0 0 0 0 1)) =
     max_rotation (example_odometry\<lparr>use_imu_data := False, max_rotation := pi / 2\<rparr>) \<and>
   (case UpdateICP
           (example_collaborators
              \<lparr>block3 = Mat3 0 (- 1) 0 1 0 0 0 0 1, col3 = Vec3 (3 / 10) 0 0\<rparr>)
           (example_odometry\<lparr>use_imu_data := False, max_rotation := pi / 2\<rparr>) of
      Inl e \<Rightarrow> False
    | Inr (s', b) \<Rightarrow>
        integrated_estimate s' =
          \<lparr>translation = Vec3 (3 / 10) 0 0, rotation = Mat3 0 (- 1) 0 1 0 0 0 0 1\<rparr>) \<and>
   Norm (Vec3 (2 / 5) 0 0) =
     max_translation (example_odometry\<lparr>use_imu_data := False, max_rotation := pi / 2\<rparr>) + 1 / 10 \<and>
   (case UpdateICP
           (example_collaborators
              \<lparr>block3 = Mat3 0 (- 1) 0 1 0 0 0 0 1, col3 = Vec3 (2 / 5) 0 0\<rparr>)
           (example_odometry\<lparr>use_imu_data := False, max_rotation := pi / 2\<rparr>) of
      Inl e \<Rightarrow> False
    | Inr (s', b) \<Rightarrow>
        translation (incremental_estimate s') = Vec3 (2 / 5) 0 0 \<and>
        integrated_estimate s' = identity_pose)"
proof -
  let ?R = "Mat3 0 (- 1) 0 1 0 0 0 0 1"
  let ?T = "\<lparr>block3 = ?R, col3 = Vec3 (3 / 10) 0 0\<rparr>"
  let ?U = "\<lparr>block3 = ?R, col3 = Vec3 (2 / 5) 0 0\<rparr>"
  let ?L = "example_collaborators ?T"
  let ?M = "example_collaborators ?U"
  let ?s = "example_odometry\<lparr>use_imu_data := False, max_rotation := pi / 2\<rparr>"
  have u: "UpdateICP ?L ?s = Inr (integrate ?L ?s ?T, True)"
    by (simp add: UpdateICP_cases example_odometry_def example_collaborators_def)
  have v: "UpdateICP ?M ?s = Inr (integrate ?M ?s ?U, True)"
    by (simp add: UpdateICP_cases example_odometry_def example_collaborators_def)
  have inc: "incremental_estimate (integrate ?L ?s ?T) =
      \<lparr>translation = Vec3 (3 / 10) 0 0, rotation = ?R\<rparr>"
    by (simp add: incremental_integrate)
  have inc': "incremental_estimate (integrate ?M ?s ?U) =
      \<lparr>translation = Vec3 (2 / 5) 0 0, rotation = ?R\<rparr>"
    by (simp add: incremental_integrate)
  have mt: "max_translation ?s = 3 / 10" and th: "transform_thresholding ?s"
    and ie: "integrated_estimate ?s = identity_pose"
    by (simp_all add: example_odometry_def)
  have "sqrt (9 / 100) = 3 / 10"
    by (rule real_sqrt_unique) (simp_all add: power2_eq_square)
  then have tn: "Norm (Vec3 (3 / 10) 0 0) = max_translation ?s"
    by (simp add: mt)
  have "sqrt (4 / 25) = 2 / 5"
    by (rule real_sqrt_unique) (simp_all add: power2_eq_square)
  then have tn': "Norm (Vec3 (2 / 5) 0 0) = max_translation ?s + 1 / 10"
    by (simp add: mt)
  have "sqrt (pi * pi / 4) = pi / 2"
    by (rule real_sqrt_unique) (simp_all add: power2_eq_square)
  then have rn: "Norm (ToEulerZYX ?L ?R) = max_rotation ?s"
    by (simp add: example_collaborators_def atan2_def)
  have "integrated_estimate (integrate ?L ?s ?T) =
      PoseUpdate ?L (integrated_estimate ?s) (incremental_estimate (integrate ?L ?s ?T))"
    using gate_is_inclusive [OF u] tn rn by (simp add: Let_def inc)
  also have "\<dots> = \<lparr>translation = Vec3 (3 / 10) 0 0, rotation = ?R\<rparr>"
    unfolding inc ie
    by (simp add: example_collaborators_def identity_pose_def vec3_zero_def mat3_identity_def)
  finally have acc: "integrated_estimate (integrate ?L ?s ?T) =
      \<lparr>translation = Vec3 (3 / 10) 0 0, rotation = ?R\<rparr>" .
  have "\<forall>\<epsilon>>0. transform_thresholding ?s \<longrightarrow>
          Norm (translation (incremental_estimate (integrate ?M ?s ?U))) =
            max_translation ?s + \<epsilon> \<or>
          Norm (ToEulerZYX ?M (rotation (incremental_estimate (integrate ?M ?s ?U)))) =
            max_rotation ?s + \<epsilon> \<longrightarrow>
          integrated_estimate (integrate ?M ?s ?U) = integrated_estimate ?s"
    using gate_is_inclusive [OF v] by (simp only: Let_def) blast
  then have "transform_thresholding ?s \<longrightarrow>
          Norm (translation (incremental_estimate (integrate ?M ?s ?U))) =
            max_translation ?s + 1 / 10 \<or>
          Norm (ToEulerZYX ?M (rotation (incremental_estimate (integrate ?M ?s ?U)))) =
            max_rotation ?s + 1 / 10 \<longrightarrow>
          integrated_estimate (integrate ?M ?s ?U) = integrated_estimate ?s"
    by (rule allE [where x = "1 / 10"]) simp
  with th tn' have rej: "integrated_estimate (integrate ?M ?s ?U) = identity_pose"
    unfolding inc' ie by simp
  show ?thesis
    unfolding u v using tn tn' rn acc rej inc' by simp
qed

text \<open>
  Claim C4. For every cycle in the initialised state whose increment the gate
  rejects, the integrated estimate is exactly its value before the cycle, and the
  rejected increment is the stored incremental estimate that
  \<open>GetIncrementalEstimate\<close> returns: its translation is the registration's, its
  rotation the registration's or, when the IMU is in use, the fused one.
\<close>

theorem rejected_increment_is_reported:
  assumes "initialized s" and "UpdateEstimate L s pts = Inr (s', b)"
    and "\<not> gate_accepts L s (incremental_estimate s')"
  shows "integrated_estimate s' = integrated_estimate s \<and>
         GetIntegratedEstimate s' = integrated_estimate s \<and>
         translation (GetIncrementalEstimate s') = col3 (icp_align L pts (query s)) \<and>
         rotation (GetIncrementalEstimate s') =
           (if use_imu_data s'
            then block3 (fuse (icp_align L pts (query s))
                           (hd (imu_attitude_deque s @ [imu_change_in_attitude s'])))
            else block3 (icp_align L pts (query s)))"
proof -
  have "integrated_estimate s' = integrated_estimate s"
    using UpdateEstimate_integrated [OF assms(1,2)] assms(3) by simp
  moreover have "translation (incremental_estimate s') = col3 (icp_align L pts (query s))"
    unfolding UpdateEstimate_incremental [OF assms(1,2)] by simp
  moreover have "rotation (incremental_estimate s') =
           (if use_imu_data s'
            then block3 (fuse (icp_align L pts (query s))
                           (hd (imu_attitude_deque s @ [imu_change_in_attitude s'])))
            else block3 (icp_align L pts (query s)))"
    using UpdateEstimate_incremental [OF assms(1,2)] by simp
  ultimately show ?thesis
    by (simp add: GetIntegratedEstimate_def GetIncrementalEstimate_def)
qed

theorem rejected_increment_is_reported_witness:
  "case UpdateEstimate
          (example_collaborators \<lparr>block3 = mat3_identity, col3 = Vec3 (3 / 10) (2 / 5) 0\<rparr>)
          (example_odometry\<lparr>initialized := True, use_imu_data := False,
             imu_deque := [imu_sample unit_quat 0]\<rparr>)
          (empty_cloud 1) of
     Inl e \<Rightarrow> False
   | Inr (s', b) \<Rightarrow>
       Norm (translation (GetIncrementalEstimate s')) = 1 / 2 \<and>
       rotation (GetIncrementalEstimate s') = mat3_identity \<and>
       GetIntegratedEstimate s' = identity_pose"
proof -
  let ?T = "\<lparr>block3 = mat3_identity, col3 = Vec3 (3 / 10) (2 / 5) 0\<rparr>"
  let ?L = "example_collaborators ?T"
  let ?s = "example_odometry\<lparr>initialized := True, use_imu_data := False,
             imu_deque := [imu_sample unit_quat 0]\<rparr>"
  have i: "initialized ?s" by simp
  have ne: "imu_deque ?s \<noteq> []" by simp
  from UpdateEstimate_succeeds [OF i ne, of ?L "empty_cloud 1"]
  obtain s' where u: "UpdateEstimate ?L ?s (empty_cloud 1) = Inr (s', True)" ..
  have use: "\<not> use_imu_data s'"
    unfolding UpdateEstimate_use_imu [OF i u] by (simp add: example_odometry_def)
  have inc: "incremental_estimate s' =
      \<lparr>translation = Vec3 (3 / 10) (2 / 5) 0, rotation = mat3_identity\<rparr>"
    unfolding UpdateEstimate_incremental [OF i u] using use
    by (simp add: example_collaborators_def)
  have sq: "sqrt (1 / 4) = 1 / 2"
    by (rule real_sqrt_unique) (simp_all add: power2_eq_square)
  have n: "Norm (Vec3 (3 / 10) (2 / 5) 0) = 1 / 2"
    using sq by simp
  have rej: "\<not> gate_accepts ?L ?s (incremental_estimate s')"
    unfolding inc gate_accepts_def using n by (simp add: example_odometry_def)
  from rejected_increment_is_reported [OF i u rej] use
  have "GetIntegratedEstimate s' = identity_pose \<and>
        translation (GetIncrementalEstimate s') = Vec3 (3 / 10) (2 / 5) 0 \<and>
        rotation (GetIncrementalEstimate s') = mat3_identity"
    by (simp add: example_odometry_def example_collaborators_def)
  then show ?thesis using n by (simp add: u)
qed

subsection \<open>Initialisation\<close>

text \<open>
  Claim C6. A scan processed while the object is not initialised is stored as the
  query cloud and the call returns \<open>False\<close> (no update); no registration is run: the
  result is the same for every registration, both estimates, the reference cloud
  and the queue of changes in attitude are untouched. The object is initialised
  afterwards unless the IMU is in use and no sample has ever been received. From an
  initialised object every sequence of calls that returns leaves it initialised.
\<close>

theorem first_scan_and_initialisation:
  "(\<not> initialized s \<longrightarrow>
      (\<exists>s'. UpdateEstimate L s pts = Inr (s', False) \<and> query s' = pts \<and>
            (initialized s' \<longleftrightarrow> \<not> (use_imu_data s \<and> \<not> imu_data_has_been_received s)) \<and>
            reference s' = reference s \<and>
            incremental_estimate s' = incremental_estimate s \<and>
            integrated_estimate s' = integrated_estimate s \<and>
            imu_attitude_deque s' = imu_attitude_deque s) \<and>
      UpdateEstimate L' s pts = UpdateEstimate L s pts) \<and>
   (initialized s \<longrightarrow> run L s cs = Inr s'' \<longrightarrow> initialized s'')"
proof (intro conjI impI)
  assume n: "\<not> initialized s"
  show "\<exists>s'. UpdateEstimate L s pts = Inr (s', False) \<and> query s' = pts \<and>
            (initialized s' \<longleftrightarrow> \<not> (use_imu_data s \<and> \<not> imu_data_has_been_received s)) \<and>
            reference s' = reference s \<and>
            incremental_estimate s' = incremental_estimate s \<and>
            integrated_estimate s' = integrated_estimate s \<and>
            imu_attitude_deque s' = imu_attitude_deque s"
    unfolding UpdateEstimate_uninitialized [OF n] using n by simp
  show "UpdateEstimate L' s pts = UpdateEstimate L s pts"
    unfolding UpdateEstimate_uninitialized [OF n] ..
next
  assume "initialized s" and "run L s cs = Inr s''"
  then show "initialized s''" by (rule run_initialized)
qed

theorem first_scan_and_initialisation_witness:
  "(case UpdateEstimate (example_collaborators mat4_identity) example_odometry (empty_cloud 7) of
      Inl e \<Rightarrow> False
    | Inr (s', b) \<Rightarrow> \<not> b \<and> \<not> initialized s' \<and> query s' = empty_cloud 7) \<and>
   (case UpdateEstimate (example_collaborators mat4_identity)
           (SetImuData example_odometry (unit_quat, 0)) (empty_cloud 7) of
      Inl e \<Rightarrow> False
    | Inr (s', b) \<Rightarrow> \<not> b \<and> initialized s' \<and> query s' = empty_cloud 7) \<and>
   (case run (example_collaborators mat4_identity) example_odometry
           [ImuSample unit_quat 0, Scan (empty_cloud 7), ImuSample unit_quat 5,
            Scan (empty_cloud 9)] of
      Inl e \<Rightarrow> False
    | Inr s'' \<Rightarrow> initialized s'')"
proof -
  let ?L = "example_collaborators mat4_identity"
  let ?s1 = "SetImuData example_odometry (unit_quat, 0)"
  let ?cs = "[ImuSample unit_quat 5, Scan (empty_cloud 9)]"
  have n0: "\<not> initialized example_odometry" "use_imu_data example_odometry"
    "\<not> imu_data_has_been_received example_odometry"
    by (simp_all add: example_odometry_def)
  have n1: "\<not> initialized ?s1"
    using n0(1) by (simp add: SetImuData_initialized)
  have f1: "imu_data_has_been_received ?s1"
    by (simp add: SetImuData_def Let_def)
  from first_scan_and_initialisation
    [where s = example_odometry and L = ?L and pts = "empty_cloud 7" and L' = ?L
       and cs = "[]" and s'' = example_odometry] n0
  obtain s' where a: "UpdateEstimate ?L example_odometry (empty_cloud 7) = Inr (s', False)"
    "query s' = empty_cloud 7" "\<not> initialized s'"
    by auto
  from first_scan_and_initialisation
    [where s = ?s1 and L = ?L and pts = "empty_cloud 7" and L' = ?L
       and cs = "[]" and s'' = ?s1] n1 f1
  obtain s2 where b: "UpdateEstimate ?L ?s1 (empty_cloud 7) = Inr (s2, False)"
    "query s2 = empty_cloud 7" "initialized s2"
    by auto
  have ne: "imu_deque (SetImuData s2 (unit_quat, 5)) \<noteq> []"
    by (rule SetImuData_nonempty)
  have i3: "initialized (SetImuData s2 (unit_quat, 5))"
    using b(3) by (simp add: SetImuData_initialized)
  from UpdateEstimate_succeeds [OF i3 ne, of ?L "empty_cloud 9"]
  obtain s4 where
    c: "UpdateEstimate ?L (SetImuData s2 (unit_quat, 5)) (empty_cloud 9) = Inr (s4, True)" ..
  have r: "run ?L s2 ?cs = Inr s4"
    by (simp add: c)
  from first_scan_and_initialisation
    [where s = s2 and L = ?L and pts = "empty_cloud 7" and L' = ?L and cs = ?cs and s'' = s4]
    b(3) r
  have i4: "initialized s4" by blast
  have r0: "run ?L example_odometry (ImuSample unit_quat 0 # Scan (empty_cloud 7) # ?cs) = Inr s4"
    using r b(1) by simp
  show ?thesis
    unfolding r0 a(1) b(1) using a(2,3) b(2,3) i4 by simp
qed

subsection \<open>The queue of changes in attitude\<close>

lemma SetImuData_queue: "imu_attitude_deque (SetImuData s qt) = imu_attitude_deque s"
  by (simp add: SetImuData_def Let_def)

lemma run_no_front_fault: "run L s cs \<noteq> Inl DequeFrontOnEmpty"
proof (induction cs arbitrary: s)
  case Nil
  then show ?case by simp
next
  case (Cons c cs)
  show ?case
  proof (cases c)
    case (ImuSample q t)
    then show ?thesis using Cons.IH [of "SetImuData s (q, t)"] by simp
  next
    case (Scan pts)
    show ?thesis
    proof (cases "UpdateEstimate L s pts")
      case (Inl e)
      with UpdateEstimate_no_front_fault [of L s pts] have "e \<noteq> DequeFrontOnEmpty" by auto
      with Inl Scan show ?thesis by simp
    next
      case (Inr r)
      obtain s1 b where "r = (s1, b)" by (cases r)
      with Inr Scan show ?thesis using Cons.IH [of s1] by simp
    qed
  qed
qed

text \<open>
  Claim C8. When the IMU is not in use, \<open>UpdateICP\<close> returns and stores the
  registration transform, unmodified. For every cycle (a scan processed in the
  initialised state) that ends with the IMU not in use, or in which the queue of
  changes in attitude is empty when \<open>UpdateICP\<close> takes its front, the stored
  increment, which \<open>GetIncrementalEstimate\<close> returns, is the registration transform,
  unmodified. Fusion being unavailable is never fatal: no call of \<open>UpdateEstimate\<close>
  and no sequence of calls takes the front of an empty queue. (The queue at that
  point is the queue before the cycle with the cycle's own change appended.)
\<close>

theorem registration_unmodified_without_fusion:
  "(\<not> use_imu_data s \<longrightarrow>
      UpdateICP L s = Inr (integrate L s (icp_align L (query s) (reference s)), True) \<and>
      incremental_estimate (integrate L s (icp_align L (query s) (reference s))) =
        \<lparr>translation = col3 (icp_align L (query s) (reference s)),
         rotation = block3 (icp_align L (query s) (reference s))\<rparr>) \<and>
   (initialized s \<longrightarrow> UpdateEstimate L s pts = Inr (s', b) \<longrightarrow>
      \<not> use_imu_data s' \<or> imu_attitude_deque s @ [imu_change_in_attitude s'] = [] \<longrightarrow>
      GetIncrementalEstimate s' =
        \<lparr>translation = col3 (icp_align L pts (query s)),
         rotation = block3 (icp_align L pts (query s))\<rparr>) \<and>
   UpdateEstimate L s pts \<noteq> Inl DequeFrontOnEmpty \<and>
   run L s cs \<noteq> Inl DequeFrontOnEmpty"
proof (intro conjI impI)
  assume "\<not> use_imu_data s"
  then show "UpdateICP L s = Inr (integrate L s (icp_align L (query s) (reference s)), True)"
    by (simp add: UpdateICP_cases)
  show "incremental_estimate (integrate L s (icp_align L (query s) (reference s))) =
        \<lparr>translation = col3 (icp_align L (query s) (reference s)),
         rotation = block3 (icp_align L (query s) (reference s))\<rparr>"
    by (rule incremental_integrate)
next
  assume i: "initialized s" and u: "UpdateEstimate L s pts = Inr (s', b)"
    and n: "\<not> use_imu_data s' \<or> imu_attitude_deque s @ [imu_change_in_attitude s'] = []"
  from n have "\<not> use_imu_data s'" by simp
  then show "GetIncrementalEstimate s' =
        \<lparr>translation = col3 (icp_align L pts (query s)),
         rotation = block3 (icp_align L pts (query s))\<rparr>"
    unfolding GetIncrementalEstimate_def UpdateEstimate_incremental [OF i u] by simp
next
  show "UpdateEstimate L s pts \<noteq> Inl DequeFrontOnEmpty"
    by (rule UpdateEstimate_no_front_fault)
  show "run L s cs \<noteq> Inl DequeFrontOnEmpty"
    by (rule run_no_front_fault)
qed

theorem registration_unmodified_without_fusion_witness:
  "case UpdateEstimate
          (example_collaborators \<lparr>block3 = Mat3 0 (- 1) 0 1 0 0 0 0 1, col3 = Vec3 (1 / 10) 0 0\<rparr>)
          (example_odometry\<lparr>initialized := True, use_imu_data := False,
             imu_deque := [imu_sample unit_quat 0]\<rparr>)
          (empty_cloud 1) of
     Inl e \<Rightarrow> False
   | Inr (s', b) \<Rightarrow>
       GetIncrementalEstimate s' =
         \<lparr>translation = Vec3 (1 / 10) 0 0, rotation = Mat3 0 (- 1) 0 1 0 0 0 0 1\<rparr>"
proof -
  let ?T = "\<lparr>block3 = Mat3 0 (- 1) 0 1 0 0 0 0 1, col3 = Vec3 (1 / 10) 0 0\<rparr>"
  let ?L = "example_collaborators ?T"
  let ?s = "example_odometry\<lparr>initialized := True, use_imu_data := False,
             imu_deque := [imu_sample unit_quat 0]\<rparr>"
  have i: "initialized ?s" by simp
  have ne: "imu_deque ?s \<noteq> []" by simp
  from UpdateEstimate_succeeds [OF i ne, of ?L "empty_cloud 1"]
  obtain s' where u: "UpdateEstimate ?L ?s (empty_cloud 1) = Inr (s', True)" ..
  have use: "\<not> use_imu_data s'"
    unfolding UpdateEstimate_use_imu [OF i u] by (simp add: example_odometry_def)
  from registration_unmodified_without_fusion
    [where s = ?s and L = ?L and pts = "empty_cloud 1" and s' = s' and b = True and cs = "[]"]
    i u use
  have "GetIncrementalEstimate s' =
        \<lparr>translation = col3 (icp_align ?L (empty_cloud 1) (query ?s)),
         rotation = block3 (icp_align ?L (empty_cloud 1) (query ?s))\<rparr>"
    by blast
  then have "GetIncrementalEstimate s' =
         \<lparr>translation = Vec3 (1 / 10) 0 0, rotation = Mat3 0 (- 1) 0 1 0 0 0 0 1\<rparr>"
    by (simp add: example_collaborators_def)
  then show ?thesis by (simp add: u)
qed

text \<open>
  Claim C9. \<open>SetImuData\<close> and a scan in the uninitialised state leave the queue as it
  is. A cycle in the initialised state that returns has enqueued exactly one change
  in attitude at the back, and has removed at most one entry: none when the IMU is
  not in use, and otherwise the front, that is the oldest entry, which is the one
  fused into the increment. The front is never taken from an empty queue in a
  cycle, so no more is consumed than was produced.
\<close>

theorem delta_queue_one_in_at_most_one_out:
  "UpdateEstimate L s pts \<noteq> Inl DequeFrontOnEmpty \<and>
   imu_attitude_deque (SetImuData s qt) = imu_attitude_deque s \<and>
   (\<not> initialized s \<longrightarrow> UpdateEstimate L s pts = Inr (s', b) \<longrightarrow>
      imu_attitude_deque s' = imu_attitude_deque s) \<and>
   (initialized s \<longrightarrow> UpdateEstimate L s pts = Inr (s', b) \<longrightarrow>
      imu_attitude_deque s' =
        (if use_imu_data s' then tl (imu_attitude_deque s @ [imu_change_in_attitude s'])
         else imu_attitude_deque s @ [imu_change_in_attitude s']) \<and>
      length (imu_attitude_deque s') =
        (if use_imu_data s' then length (imu_attitude_deque s)
         else length (imu_attitude_deque s) + 1) \<and>
      (use_imu_data s' \<longrightarrow>
         rotation (incremental_estimate s') =
           block3 (fuse (icp_align L pts (query s))
                     (hd (imu_attitude_deque s @ [imu_change_in_attitude s'])))))"
proof (intro conjI impI)
  show "UpdateEstimate L s pts \<noteq> Inl DequeFrontOnEmpty"
    by (rule UpdateEstimate_no_front_fault)
  show "imu_attitude_deque (SetImuData s qt) = imu_attitude_deque s"
    by (rule SetImuData_queue)
next
  assume "\<not> initialized s" and "UpdateEstimate L s pts = Inr (s', b)"
  then show "imu_attitude_deque s' = imu_attitude_deque s"
    by (auto simp: UpdateEstimate_uninitialized split: if_splits)
next
  assume i: "initialized s" and u: "UpdateEstimate L s pts = Inr (s', b)"
  show q: "imu_attitude_deque s' =
        (if use_imu_data s' then tl (imu_attitude_deque s @ [imu_change_in_attitude s'])
         else imu_attitude_deque s @ [imu_change_in_attitude s'])"
    using i u by (rule UpdateEstimate_queue)
  show "length (imu_attitude_deque s') =
        (if use_imu_data s' then length (imu_attitude_deque s)
         else length (imu_attitude_deque s) + 1)"
    unfolding q by simp
  assume "use_imu_data s'"
  then show "rotation (incremental_estimate s') =
           block3 (fuse (icp_align L pts (query s))
                     (hd (imu_attitude_deque s @ [imu_change_in_attitude s'])))"
    unfolding UpdateEstimate_incremental [OF i u] by simp
qed

theorem delta_queue_one_in_at_most_one_out_witness:
  "case UpdateEstimate (example_collaborators mat4_identity)
          (example_odometry\<lparr>initialized := True, use_imu_data := False,
             imu_deque := [imu_sample unit_quat 0], imu_attitude_deque := [mat4_identity]\<rparr>)
          (empty_cloud 1) of
     Inl e \<Rightarrow> False
   | Inr (s', b) \<Rightarrow> length (imu_attitude_deque s') = 2 \<and> hd (imu_attitude_deque s') = mat4_identity"
proof -
  let ?L = "example_collaborators mat4_identity"
  let ?s = "example_odometry\<lparr>initialized := True, use_imu_data := False,
             imu_deque := [imu_sample unit_quat 0], imu_attitude_deque := [mat4_identity]\<rparr>"
  have i: "initialized ?s" by simp
  have ne: "imu_deque ?s \<noteq> []" by simp
  from UpdateEstimate_succeeds [OF i ne, of ?L "empty_cloud 1"]
  obtain s' where u: "UpdateEstimate ?L ?s (empty_cloud 1) = Inr (s', True)" ..
  have use: "\<not> use_imu_data s'"
    unfolding UpdateEstimate_use_imu [OF i u] by (simp add: example_odometry_def)
  from delta_queue_one_in_at_most_one_out
    [where s = ?s and L = ?L and pts = "empty_cloud 1" and s' = s' and b = True
       and qt = "(unit_quat, 0)"] i u use
  have "imu_attitude_deque s' = imu_attitude_deque ?s @ [imu_change_in_attitude s']"
    by simp
  then have "length (imu_attitude_deque s') = 2 \<and> hd (imu_attitude_deque s') = mat4_identity"
    by simp
  then show ?thesis by (simp add: u)
qed

subsection \<open>Reading the snapshot of the IMU buffer\<close>

text \<open>
  Claim C10. In the initialised state \<open>UpdateEstimate\<close> reads element 0 of the
  snapshot whatever the IMU flags are: the read is out of range exactly when the
  buffer is empty, and with a non-empty buffer the cycle returns. A buffer is
  non-empty after any \<open>SetImuData\<close> and stays so, hence the read is in range exactly
  when a sample was ingested before the scan.
\<close>

theorem snapshot_read_needs_a_sample:
  "(initialized s \<longrightarrow>
      (UpdateEstimate L s pts = Inl DequeIndexOutOfRange \<longleftrightarrow> imu_deque s = [])) \<and>
   (initialized s \<longrightarrow> imu_deque s \<noteq> [] \<longrightarrow> (\<exists>s'. UpdateEstimate L s pts = Inr (s', True))) \<and>
   imu_deque (SetImuData s qt) \<noteq> [] \<and>
   (run L s cs = Inr s'' \<longrightarrow> imu_deque s \<noteq> [] \<or> (\<exists>q t. ImuSample q t \<in> set cs) \<longrightarrow>
      imu_deque s'' \<noteq> [])"
proof (intro conjI impI)
  assume i: "initialized s"
  show "UpdateEstimate L s pts = Inl DequeIndexOutOfRange \<longleftrightarrow> imu_deque s = []"
  proof
    assume "UpdateEstimate L s pts = Inl DequeIndexOutOfRange"
    with UpdateEstimate_succeeds [OF i, of L pts] show "imu_deque s = []" by auto
  next
    assume "imu_deque s = []"
    with i show "UpdateEstimate L s pts = Inl DequeIndexOutOfRange"
      by (simp add: UpdateEstimate_initialized)
  qed
next
  assume "initialized s" and "imu_deque s \<noteq> []"
  then show "\<exists>s'. UpdateEstimate L s pts = Inr (s', True)"
    by (rule UpdateEstimate_succeeds)
next
  show "imu_deque (SetImuData s qt) \<noteq> []" by (rule SetImuData_nonempty)
next
  assume "run L s cs = Inr s''" and "imu_deque s \<noteq> [] \<or> (\<exists>q t. ImuSample q t \<in> set cs)"
  then show "imu_deque s'' \<noteq> []" by (rule run_imu_deque_nonempty)
qed

theorem snapshot_read_needs_a_sample_witness:
  "run (example_collaborators mat4_identity) (example_odometry\<lparr>use_imu_data := False\<rparr>)
     [Scan (empty_cloud 1), Scan (empty_cloud 2)] = Inl DequeIndexOutOfRange \<and>
   (case run (example_collaborators mat4_identity) (example_odometry\<lparr>use_imu_data := False\<rparr>)
           [Scan (empty_cloud 1), ImuSample unit_quat 0, Scan (empty_cloud 2)] of
      Inl e \<Rightarrow> False
    | Inr s'' \<Rightarrow> imu_deque s'' = [imu_sample unit_quat 0])"
proof -
  let ?L = "example_collaborators mat4_identity"
  let ?s = "example_odometry\<lparr>use_imu_data := False\<rparr>"
  let ?s1 = "?s\<lparr>stamp := scan_stamp (empty_cloud 1), query := empty_cloud 1,
               initialized := True\<rparr>"
  let ?s2 = "SetImuData ?s1 (unit_quat, 0)"
  have u1: "UpdateEstimate ?L ?s (empty_cloud 1) = Inr (?s1, False)"
    by (simp add: UpdateEstimate_uninitialized example_odometry_def)
  have i1: "initialized ?s1" by simp
  have e1: "imu_deque ?s1 = []" by (simp add: example_odometry_def)
  from snapshot_read_needs_a_sample
    [where s = ?s1 and L = ?L and pts = "empty_cloud 2" and qt = "(unit_quat, 0)"
       and cs = "[]" and s'' = ?s1] i1 e1
  have f: "UpdateEstimate ?L ?s1 (empty_cloud 2) = Inl DequeIndexOutOfRange"
    by blast
  have i2: "initialized ?s2" by (simp add: SetImuData_initialized)
  have d2: "imu_deque ?s2 = [imu_sample unit_quat 0]"
    by (simp add: imu_deque_SetImuData e1)
  from snapshot_read_needs_a_sample
    [where s = ?s2 and L = ?L and pts = "empty_cloud 2" and qt = "(unit_quat, 0)"
       and cs = "[]" and s'' = ?s2] i2 d2
  obtain s3 where u3: "UpdateEstimate ?L ?s2 (empty_cloud 2) = Inr (s3, True)"
    by auto
  have d3: "imu_deque s3 = [imu_sample unit_quat 0]"
    using UpdateEstimate_imu_deque [OF u3] d2 by simp
  have r1: "run ?L ?s [Scan (empty_cloud 1), Scan (empty_cloud 2)] = Inl DequeIndexOutOfRange"
    by (simp add: u1 f)
  have r2: "run ?L ?s [Scan (empty_cloud 1), ImuSample unit_quat 0, Scan (empty_cloud 2)] = Inr s3"
    by (simp add: u1 u3)
  show ?thesis
    unfolding r1 r2 using d3 by simp
qed

subsection \<open>The check of the IMU data\<close>

text \<open>
  Claim C5, as stated, at \<open>imu_threshold = 1\<close> and a matched sample 0.5 s before the
  scan. The difference is within \<open>imu_threshold\<close>, and the cycle ends with the IMU not
  in use: line 263 compares with the local \<^verbatim>\<open>max_ts_diff = 0.05\<close>, not with
  \<^verbatim>\<open>imu_threshold_\<close>.
\<close>

theorem imu_threshold_counterexample:
  "check_imu_data (example_odometry\<lparr>initialized := True, check_imu_data := True,
       imu_deque := [imu_sample unit_quat 0]\<rparr>) \<and>
   imu_threshold (example_odometry\<lparr>initialized := True, check_imu_data := True,
       imu_deque := [imu_sample unit_quat 0]\<rparr>) = 1 \<and>
   find_aligned [imu_sample unit_quat 0] (scan_stamp (empty_cloud 500000)) =
     Inr (internal_imu_attitude (imu_sample unit_quat 0), - (1 / 2)) \<and>
   \<bar>- (1 / 2) :: real\<bar> \<le> 1 \<and>
   (case UpdateEstimate (example_collaborators mat4_identity)
           (example_odometry\<lparr>initialized := True, check_imu_data := True,
              imu_deque := [imu_sample unit_quat 0]\<rparr>) (empty_cloud 500000) of
      Inl e \<Rightarrow> False
    | Inr (s', b) \<Rightarrow> \<not> use_imu_data s')"
proof -
  let ?L = "example_collaborators mat4_identity"
  let ?s = "example_odometry\<lparr>initialized := True, check_imu_data := True,
              imu_deque := [imu_sample unit_quat 0]\<rparr>"
  have i: "initialized ?s" by simp
  have ne: "imu_deque ?s \<noteq> []" by simp
  have st: "scan_stamp (empty_cloud 500000) = 500000000"
    by (subst scan_stamp_exact) (simp_all add: empty_cloud_def)
  have d: "toSec_diff 0 500000000 = - (1 / 2)"
    by (subst toSec_diff_half_second) simp_all
  have cl: "closest_loop [imu_sample unit_quat 0] 500000000
              (internal_imu_attitude (imu_sample unit_quat 0), 1000) =
            (internal_imu_attitude (imu_sample unit_quat 0), - (1 / 2))"
    by (simp add: imu_sample_def d)
  have fa: "find_aligned [imu_sample unit_quat 0] (scan_stamp (empty_cloud 500000)) =
     Inr (internal_imu_attitude (imu_sample unit_quat 0), - (1 / 2))"
    unfolding st find_aligned_cases using cl by simp
  from UpdateEstimate_succeeds [OF i ne, of ?L "empty_cloud 500000"]
  obtain s' where u: "UpdateEstimate ?L ?s (empty_cloud 500000) = Inr (s', True)" ..
  have "\<not> use_imu_data s'"
    unfolding UpdateEstimate_use_imu [OF i u] st using cl by simp
  moreover have "imu_threshold ?s = 1" by (simp add: example_odometry_def)
  ultimately show ?thesis unfolding u using fa by simp
qed

text \<open>
  Claim C5, amended. For every cycle in the initialised state that returns, with
  \<open>d\<close> the \<^verbatim>\<open>float\<close> time difference reported by the matching: when
  \<open>check_imu_data\<close> is set the IMU is in use afterwards if and only if \<open>\<bar>d\<bar>\<close> is
  strictly below the \<^verbatim>\<open>float\<close> value of \<^verbatim>\<open>max_ts_diff = 0.05\<close>, which is
  \<open>13421773 / 2^28\<close> (\<open>max_ts_diff_value\<close>); \<open>imu_threshold\<close> is not consulted.
  Otherwise \<open>use_imu_data\<close> keeps its value.
\<close>

theorem imu_check_uses_fixed_bound:
  assumes "initialized s" and "UpdateEstimate L s pts = Inr (s', b)"
  shows "\<exists>cur d. find_aligned (imu_deque s) (scan_stamp pts) = Inr (cur, d) \<and>
           use_imu_data s' =
             (if check_imu_data s then \<bar>d\<bar> < 13421773 / 268435456 else use_imu_data s)"
proof -
  from UpdateEstimate_cycle [OF assms] have ne: "imu_deque s \<noteq> []" by simp
  obtain cur d where cd: "closest_loop (imu_deque s) (scan_stamp pts)
       (internal_imu_attitude (hd (imu_deque s)), 1000) = (cur, d)"
    by (cases "closest_loop (imu_deque s) (scan_stamp pts)
       (internal_imu_attitude (hd (imu_deque s)), 1000)")
  have "find_aligned (imu_deque s) (scan_stamp pts) = Inr (cur, d)"
    using ne cd by (simp add: find_aligned_cases)
  moreover have "use_imu_data s' =
      (if check_imu_data s then \<bar>d\<bar> < 13421773 / 268435456 else use_imu_data s)"
    unfolding UpdateEstimate_use_imu [OF assms] cd by simp
  ultimately show ?thesis by blast
qed

text \<open>
  Two cycles with \<open>check_imu_data\<close> set and the IMU not in use before. With the
  sample 40 ms before the scan the IMU is in use afterwards. With the sample
  49999999 ns before the scan the \<^verbatim>\<open>float\<close> difference is \<open>- 13421773 / 2^28\<close>, equal
  in magnitude to \<^verbatim>\<open>max_ts_diff\<close>, and the IMU stays out of use.
\<close>

theorem imu_check_uses_fixed_bound_witness:
  "(case UpdateEstimate (example_collaborators mat4_identity)
           (example_odometry\<lparr>initialized := True, check_imu_data := True, use_imu_data := False,
              imu_deque := [imu_sample unit_quat 0]\<rparr>) (empty_cloud 40000) of
      Inl e \<Rightarrow> False
    | Inr (s', b) \<Rightarrow> use_imu_data s') \<and>
   find_aligned [imu_sample unit_quat 0] (scan_stamp (empty_cloud 40000)) =
     Inr (internal_imu_attitude (imu_sample unit_quat 0), - (5368709 / 134217728)) \<and>
   (case UpdateEstimate (example_collaborators mat4_identity)
           (example_odometry\<lparr>initialized := True, check_imu_data := True, use_imu_data := False,
              imu_deque := [imu_sample unit_quat 1]\<rparr>) (empty_cloud 50000) of
      Inl e \<Rightarrow> False
    | Inr (s', b) \<Rightarrow> \<not> use_imu_data s') \<and>
   find_aligned [imu_sample unit_quat 1] (scan_stamp (empty_cloud 50000)) =
     Inr (internal_imu_attitude (imu_sample unit_quat 1), - (13421773 / 268435456))"
proof -
  let ?L = "example_collaborators mat4_identity"
  let ?s = "example_odometry\<lparr>initialized := True, check_imu_data := True, use_imu_data := False,
              imu_deque := [imu_sample unit_quat 0]\<rparr>"
  let ?r = "example_odometry\<lparr>initialized := True, check_imu_data := True, use_imu_data := False,
              imu_deque := [imu_sample unit_quat 1]\<rparr>"
  have i: "initialized ?s" "initialized ?r" by simp_all
  have ne: "imu_deque ?s \<noteq> []" "imu_deque ?r \<noteq> []" by simp_all
  have c: "check_imu_data ?s" "check_imu_data ?r" by simp_all
  have st: "scan_stamp (empty_cloud 40000) = 40000000" "scan_stamp (empty_cloud 50000) = 50000000"
    by (subst scan_stamp_exact, simp_all add: empty_cloud_def)+
  have d: "toSec_diff 0 40000000 = - (5368709 / 134217728)"
    by (subst toSec_diff_40ms) simp_all
  have e: "toSec_diff 1 50000000 = - (13421773 / 268435456)"
    by (subst toSec_diff_just_under_50ms) simp_all
  have fa: "find_aligned (imu_deque ?s) (scan_stamp (empty_cloud 40000)) =
     Inr (internal_imu_attitude (imu_sample unit_quat 0), - (5368709 / 134217728))"
    unfolding st by (simp add: find_aligned_def imu_sample_def d)
  have fb: "find_aligned (imu_deque ?r) (scan_stamp (empty_cloud 50000)) =
     Inr (internal_imu_attitude (imu_sample unit_quat 1), - (13421773 / 268435456))"
    unfolding st by (simp add: find_aligned_def imu_sample_def e)
  from UpdateEstimate_succeeds [OF i(1) ne(1), of ?L "empty_cloud 40000"]
  obtain s' where u: "UpdateEstimate ?L ?s (empty_cloud 40000) = Inr (s', True)" ..
  from UpdateEstimate_succeeds [OF i(2) ne(2), of ?L "empty_cloud 50000"]
  obtain r' where v: "UpdateEstimate ?L ?r (empty_cloud 50000) = Inr (r', True)" ..
  from imu_check_uses_fixed_bound [OF i(1) u] fa c(1)
  have "use_imu_data s'" by auto
  moreover from imu_check_uses_fixed_bound [OF i(2) v] fb c(2)
  have "\<not> use_imu_data r'" by auto
  ultimately show ?thesis
    unfolding u v using fa fb by simp
qed

subsection \<open>Matching a scan to an IMU sample\<close>

lemma closest_loop_Cons:
  "closest_loop (x # xs) t (cur, m) =
     (if toSec_diff (internal_imu_attitude_timestamp x) t < 0 \<and>
         \<bar>toSec_diff (internal_imu_attitude_timestamp x) t\<bar> < \<bar>m\<bar>
      then closest_loop xs t
             (internal_imu_attitude x, toSec_diff (internal_imu_attitude_timestamp x) t)
      else closest_loop xs t (cur, m))"
  by (simp add: Let_def)

text \<open>
  The result of the loop: either the accumulator is returned and no sample beats
  it, or the snapshot splits around the selected sample, every earlier sample
  before the scan being strictly farther from it and no later one closer.
\<close>

lemma closest_loop_split:
  "closest_loop xs t (cur, m) = (cur, m) \<and>
     (\<forall>x\<in>set xs. \<not> (toSec_diff (internal_imu_attitude_timestamp x) t < 0 \<and>
        \<bar>toSec_diff (internal_imu_attitude_timestamp x) t\<bar> < \<bar>m\<bar>)) \<or>
   (\<exists>ys x zs. xs = ys @ x # zs \<and>
      closest_loop xs t (cur, m) =
        (internal_imu_attitude x, toSec_diff (internal_imu_attitude_timestamp x) t) \<and>
      toSec_diff (internal_imu_attitude_timestamp x) t < 0 \<and>
      \<bar>toSec_diff (internal_imu_attitude_timestamp x) t\<bar> < \<bar>m\<bar> \<and>
      (\<forall>y\<in>set ys. toSec_diff (internal_imu_attitude_timestamp y) t < 0 \<longrightarrow>
         \<bar>toSec_diff (internal_imu_attitude_timestamp x) t\<bar> <
           \<bar>toSec_diff (internal_imu_attitude_timestamp y) t\<bar>) \<and>
      (\<forall>z\<in>set zs. toSec_diff (internal_imu_attitude_timestamp z) t < 0 \<longrightarrow>
         \<bar>toSec_diff (internal_imu_attitude_timestamp x) t\<bar> \<le>
           \<bar>toSec_diff (internal_imu_attitude_timestamp z) t\<bar>))"
proof (induction xs arbitrary: cur m)
  case Nil
  then show ?case by simp
next
  case (Cons a xs)
  let ?fd = "\<lambda>x. toSec_diff (internal_imu_attitude_timestamp x) t"
  show ?case
  proof (cases "?fd a < 0 \<and> \<bar>?fd a\<bar> < \<bar>m\<bar>")
    case True
    then have step: "closest_loop (a # xs) t (cur, m) =
        closest_loop xs t (internal_imu_attitude a, ?fd a)"
      by (auto simp add: closest_loop_Cons simp del: closest_loop.simps(2))
    from Cons.IH [of "internal_imu_attitude a" "?fd a"]
    consider
      (same) "closest_loop xs t (internal_imu_attitude a, ?fd a) = (internal_imu_attitude a, ?fd a)"
        "\<forall>x\<in>set xs. \<not> (?fd x < 0 \<and> \<bar>?fd x\<bar> < \<bar>?fd a\<bar>)"
    | (later) ys x zs where "xs = ys @ x # zs"
        "closest_loop xs t (internal_imu_attitude a, ?fd a) = (internal_imu_attitude x, ?fd x)"
        "?fd x < 0" "\<bar>?fd x\<bar> < \<bar>?fd a\<bar>"
        "\<forall>y\<in>set ys. ?fd y < 0 \<longrightarrow> \<bar>?fd x\<bar> < \<bar>?fd y\<bar>"
        "\<forall>z\<in>set zs. ?fd z < 0 \<longrightarrow> \<bar>?fd x\<bar> \<le> \<bar>?fd z\<bar>"
      by blast
    then show ?thesis
    proof cases
      case same
      have "a # xs = [] @ a # xs" by simp
      moreover have "\<forall>z\<in>set xs. ?fd z < 0 \<longrightarrow> \<bar>?fd a\<bar> \<le> \<bar>?fd z\<bar>"
        using same(2) by fastforce
      ultimately show ?thesis
        unfolding step using same(1) True by - (rule disjI2, rule exI [of _ "[]"], rule exI [of _ a], rule exI [of _ xs], auto)
    next
      case later
      have "a # xs = (a # ys) @ x # zs" using later(1) by simp
      moreover have "\<forall>y\<in>set (a # ys). ?fd y < 0 \<longrightarrow> \<bar>?fd x\<bar> < \<bar>?fd y\<bar>"
        using later(4,5) by auto
      moreover have "\<bar>?fd x\<bar> < \<bar>m\<bar>" using later(4) True by linarith
      ultimately show ?thesis
        unfolding step using later(2,3,6)
        by - (rule disjI2, rule exI [of _ "a # ys"], rule exI [of _ x], rule exI [of _ zs], auto)
    qed
  next
    case False
    then have step: "closest_loop (a # xs) t (cur, m) = closest_loop xs t (cur, m)"
      by (auto simp add: closest_loop_Cons simp del: closest_loop.simps(2))
    from Cons.IH [of cur m]
    consider
      (same) "closest_loop xs t (cur, m) = (cur, m)"
        "\<forall>x\<in>set xs. \<not> (?fd x < 0 \<and> \<bar>?fd x\<bar> < \<bar>m\<bar>)"
    | (later) ys x zs where "xs = ys @ x # zs"
        "closest_loop xs t (cur, m) = (internal_imu_attitude x, ?fd x)"
        "?fd x < 0" "\<bar>?fd x\<bar> < \<bar>m\<bar>"
        "\<forall>y\<in>set ys. ?fd y < 0 \<longrightarrow> \<bar>?fd x\<bar> < \<bar>?fd y\<bar>"
        "\<forall>z\<in>set zs. ?fd z < 0 \<longrightarrow> \<bar>?fd x\<bar> \<le> \<bar>?fd z\<bar>"
      by blast
    then show ?thesis
    proof cases
      case same
      have "\<forall>x\<in>set (a # xs). \<not> (?fd x < 0 \<and> \<bar>?fd x\<bar> < \<bar>m\<bar>)"
        using same(2) False by simp
      then show ?thesis
        unfolding step using same(1) by (intro disjI1 conjI)
    next
      case later
      have "a # xs = (a # ys) @ x # zs" using later(1) by simp
      moreover have "?fd a < 0 \<longrightarrow> \<bar>?fd x\<bar> < \<bar>?fd a\<bar>"
        using False later(4) by linarith
      then have "\<forall>y\<in>set (a # ys). ?fd y < 0 \<longrightarrow> \<bar>?fd x\<bar> < \<bar>?fd y\<bar>"
        using later(5) by auto
      ultimately show ?thesis
        unfolding step using later(2,3,4,6)
        by - (rule disjI2, rule exI [of _ "a # ys"], rule exI [of _ x], rule exI [of _ zs], auto)
    qed
  qed
qed

text \<open>
  Claim C2, as stated, at a snapshot of two samples, the first one second after the
  scan and the second at the time of the scan. The second sample is not later than
  the scan (its difference is 0, not positive), yet the result is the first sample,
  whose difference is positive, with the initial value 1000: line 241 asks for a
  difference below zero.
\<close>

theorem find_aligned_counterexample:
  "find_aligned [imu_sample unit_quat 1000000000,
                 imu_sample \<lparr>qw = 0, qx = 0, qy = 0, qz = 1\<rparr> 0] 0 =
     Inr (internal_imu_attitude (imu_sample unit_quat 1000000000), 1000) \<and>
   toSec_diff (internal_imu_attitude_timestamp (imu_sample unit_quat 1000000000)) 0 = 1 \<and>
   toSec_diff (internal_imu_attitude_timestamp
                 (imu_sample \<lparr>qw = 0, qx = 0, qy = 0, qz = 1\<rparr> 0)) 0 = 0 \<and>
   internal_imu_attitude (imu_sample unit_quat 1000000000) \<noteq>
     internal_imu_attitude (imu_sample \<lparr>qw = 0, qx = 0, qy = 0, qz = 1\<rparr> 0)"
proof -
  have a: "toSec_diff 1000000000 0 = 1"
    using toSec_diff_whole [of 1000000000 0 1] by simp
  have b: "toSec_diff 0 0 = 0"
    using toSec_diff_whole [of 0 0 0] by simp
  show ?thesis
    by (simp add: find_aligned_def imu_sample_def a b unit_quat_def toRotationMatrix_def)
qed

text \<open>
  Claim C2, amended. The time difference of a sample is the \<^verbatim>\<open>float\<close> the code
  computes (\<open>toSec_diff\<close>), and the candidates are the samples whose difference is
  negative and greater than \<open>-1000\<close>. For every non-empty snapshot and every scan
  time: if there is a candidate, the result is a sample of the snapshot with such a
  difference, no sample before the scan has a difference closer to zero, and among
  samples with that same difference it is the first of the snapshot (differences
  that round to the same \<^verbatim>\<open>float\<close> are not told apart); in particular no sample
  with a zero or positive difference is selected. If there is no candidate, the
  result is element 0 of the snapshot with the difference 1000.
\<close>

theorem find_aligned_latest_before:
  assumes "xs \<noteq> []"
  shows "\<exists>cur d. find_aligned xs t = Inr (cur, d) \<and>
      ((\<forall>x\<in>set xs. \<not> (- 1000 < toSec_diff (internal_imu_attitude_timestamp x) t \<and>
                        toSec_diff (internal_imu_attitude_timestamp x) t < 0)) \<longrightarrow>
         cur = internal_imu_attitude (hd xs) \<and> d = 1000) \<and>
      ((\<exists>x\<in>set xs. - 1000 < toSec_diff (internal_imu_attitude_timestamp x) t \<and>
                    toSec_diff (internal_imu_attitude_timestamp x) t < 0) \<longrightarrow>
         (\<exists>ys x zs. xs = ys @ x # zs \<and> cur = internal_imu_attitude x \<and>
            d = toSec_diff (internal_imu_attitude_timestamp x) t \<and> - 1000 < d \<and> d < 0 \<and>
            (\<forall>y\<in>set ys. toSec_diff (internal_imu_attitude_timestamp y) t < 0 \<longrightarrow>
                         toSec_diff (internal_imu_attitude_timestamp y) t < d) \<and>
            (\<forall>z\<in>set zs. toSec_diff (internal_imu_attitude_timestamp z) t < 0 \<longrightarrow>
                         toSec_diff (internal_imu_attitude_timestamp z) t \<le> d)))"
proof -
  let ?fd = "\<lambda>x. toSec_diff (internal_imu_attitude_timestamp x) t"
  let ?a = "internal_imu_attitude (hd xs)"
  have fa: "find_aligned xs t = Inr (closest_loop xs t (?a, 1000))"
    using assms by (simp add: find_aligned_cases)
  from closest_loop_split [of xs t ?a 1000]
  consider
    (same) "closest_loop xs t (?a, 1000) = (?a, 1000)"
      "\<forall>x\<in>set xs. \<not> (?fd x < 0 \<and> \<bar>?fd x\<bar> < \<bar>1000\<bar>)"
  | (later) ys x zs where "xs = ys @ x # zs"
      "closest_loop xs t (?a, 1000) = (internal_imu_attitude x, ?fd x)"
      "?fd x < 0" "\<bar>?fd x\<bar> < \<bar>1000\<bar>"
      "\<forall>y\<in>set ys. ?fd y < 0 \<longrightarrow> \<bar>?fd x\<bar> < \<bar>?fd y\<bar>"
      "\<forall>z\<in>set zs. ?fd z < 0 \<longrightarrow> \<bar>?fd x\<bar> \<le> \<bar>?fd z\<bar>"
    by blast
  then show ?thesis
  proof cases
    case same
    have none: "\<not> (\<exists>x\<in>set xs. - 1000 < ?fd x \<and> ?fd x < 0)"
      using same(2) by fastforce
    show ?thesis
      unfolding fa same(1) using none by blast
  next
    case later
    have x: "x \<in> set xs" using later(1) by simp
    have d: "- 1000 < ?fd x" "?fd x < 0" using later(3,4) by linarith+
    have before: "\<forall>y\<in>set ys. ?fd y < 0 \<longrightarrow> ?fd y < ?fd x"
      using later(5) d(2) by fastforce
    have after: "\<forall>z\<in>set zs. ?fd z < 0 \<longrightarrow> ?fd z \<le> ?fd x"
      using later(6) d(2) by fastforce
    have some: "\<not> (\<forall>x\<in>set xs. \<not> (- 1000 < ?fd x \<and> ?fd x < 0))"
      using x d by blast
    have "\<exists>ys x' zs. xs = ys @ x' # zs \<and> internal_imu_attitude x = internal_imu_attitude x' \<and>
            ?fd x = ?fd x' \<and> - 1000 < ?fd x \<and> ?fd x < 0 \<and>
            (\<forall>y\<in>set ys. ?fd y < 0 \<longrightarrow> ?fd y < ?fd x) \<and>
            (\<forall>z\<in>set zs. ?fd z < 0 \<longrightarrow> ?fd z \<le> ?fd x)"
      using later(1) d before after by blast
    then show ?thesis
      unfolding fa later(2) using some by blast
  qed
qed

text \<open>
  Two snapshots. Samples at 0 s, 0.1 s and 0.2 s with a scan at 0.15 s: the result
  is the sample at 0.1 s. Samples at 0 ns and 1000 ns with a scan at 100.000001 s:
  both differences are the \<^verbatim>\<open>float\<close> \<open>-100\<close>, and the result is the first sample.
\<close>

theorem find_aligned_latest_before_witness:
  "(case find_aligned [imu_sample unit_quat 0,
                       imu_sample \<lparr>qw = 0, qx = 1, qy = 0, qz = 0\<rparr> 100000000,
                       imu_sample \<lparr>qw = 0, qx = 0, qy = 0, qz = 1\<rparr> 200000000] 150000000 of
      Inl e \<Rightarrow> False
    | Inr (cur, d) \<Rightarrow>
        d < 0 \<and> d = - (13421773 / 268435456) \<and>
        cur = internal_imu_attitude
                (imu_sample \<lparr>qw = 0, qx = 1, qy = 0, qz = 0\<rparr> 100000000)) \<and>
   (case find_aligned [imu_sample unit_quat 0,
                       imu_sample \<lparr>qw = 0, qx = 1, qy = 0, qz = 0\<rparr> 1000] 100000001000 of
      Inl e \<Rightarrow> False
    | Inr (cur, d) \<Rightarrow>
        d < 0 \<and> d = - 100 \<and> cur = internal_imu_attitude (imu_sample unit_quat 0)) \<and>
   toSec_diff 1000 100000001000 = - 100 \<and>
   internal_imu_attitude (imu_sample unit_quat 0) \<noteq>
     internal_imu_attitude (imu_sample \<lparr>qw = 0, qx = 1, qy = 0, qz = 0\<rparr> 1000)"
proof -
  let ?xs = "[imu_sample unit_quat 0,
              imu_sample \<lparr>qw = 0, qx = 1, qy = 0, qz = 0\<rparr> 100000000,
              imu_sample \<lparr>qw = 0, qx = 0, qy = 0, qz = 1\<rparr> 200000000]"
  let ?ys = "[imu_sample unit_quat 0, imu_sample \<lparr>qw = 0, qx = 1, qy = 0, qz = 0\<rparr> 1000]"
  have d: "toSec_diff 0 150000000 = - (5033165 / 33554432)"
    "toSec_diff 100000000 150000000 = - (13421773 / 268435456)"
    "toSec_diff 200000000 150000000 = 13421773 / 268435456"
    by (subst toSec_diff_150ms_before, simp, simp)
      (subst toSec_diff_50ms_before, simp, simp, subst toSec_diff_50ms_after, simp, simp)
  have e: "toSec_diff 0 100000001000 = - 100" "toSec_diff 1000 100000001000 = - 100"
    using toSec_diff_tie [of 0 100000001000] toSec_diff_whole [of 1000 100000001000 "- 100"]
    by simp_all
  have fa: "find_aligned ?xs 150000000 =
      Inr (internal_imu_attitude (imu_sample \<lparr>qw = 0, qx = 1, qy = 0, qz = 0\<rparr> 100000000),
           - (13421773 / 268435456))"
    by (simp add: find_aligned_def imu_sample_def d)
  have fb: "find_aligned ?ys 100000001000 =
      Inr (internal_imu_attitude (imu_sample unit_quat 0), - 100)"
    by (simp add: find_aligned_def imu_sample_def e)
  have ne: "?xs \<noteq> []" "?ys \<noteq> []" by simp_all
  have ex: "\<exists>x\<in>set ?xs. - 1000 < toSec_diff (internal_imu_attitude_timestamp x) 150000000 \<and>
                    toSec_diff (internal_imu_attitude_timestamp x) 150000000 < 0"
    by (simp add: imu_sample_def d)
  have ey: "\<exists>x\<in>set ?ys. - 1000 < toSec_diff (internal_imu_attitude_timestamp x) 100000001000 \<and>
                    toSec_diff (internal_imu_attitude_timestamp x) 100000001000 < 0"
    by (simp add: imu_sample_def e)
  from find_aligned_latest_before [OF ne(1), of 150000000] ex
  obtain cur d where "find_aligned ?xs 150000000 = Inr (cur, d)" "d < 0"
    by blast
  moreover from find_aligned_latest_before [OF ne(2), of 100000001000] ey
  obtain cur' d' where "find_aligned ?ys 100000001000 = Inr (cur', d')" "d' < 0"
    by blast
  moreover have "internal_imu_attitude (imu_sample unit_quat 0) \<noteq>
     internal_imu_attitude (imu_sample \<lparr>qw = 0, qx = 1, qy = 0, qz = 0\<rparr> 1000)"
    by (simp add: imu_sample_def unit_quat_def toRotationMatrix_def)
  ultimately show ?thesis
    using fa fb e(2) by simp
qed

subsection \<open>The fused rotation\<close>

text \<open>
  For all inputs, \<open>fuse\<close> keeps the translation of the registration transform
  (\<open>col3_fuse\<close>) and replaces its rotation block by
  \<open>AngleAxis(roll, X) * AngleAxis(pitch, Y) * AngleAxis(yaw, Z)\<close> with the roll and pitch
  read from the IMU change in attitude and the yaw read from the registration
  (\<open>block3_fuse\<close>). The lemmas below evaluate the angles at one input.
\<close>

lemma roundtrip_pitch_block:
  "tf_Matrix3x3 (quat_of_mat3 (Mat3 (3 / 5) 0 (4 / 5) 0 1 0 (- (4 / 5)) 0 (3 / 5))) =
     Mat3 (3 / 5) 0 (4 / 5) 0 1 0 (- (4 / 5)) 0 (3 / 5)"
proof -
  define r where "r = sqrt (16 / 5 :: real)"
  have r: "r * r = 16 / 5" "r \<noteq> 0" by (simp_all add: r_def)
  have q: "quat_of_mat3 (Mat3 (3 / 5) 0 (4 / 5) 0 1 0 (- (4 / 5)) 0 (3 / 5)) =
      \<lparr>qw = r / 2, qx = 0, qy = (4 / 5) / r, qz = 0\<rparr>"
    by (simp add: r_def Let_def)
  have rr: "r * (r * x) = 16 / 5 * x" for x
    using r(1) by (simp flip: mult.assoc)
  show ?thesis
    unfolding q by (simp add: tf_Matrix3x3_def Let_def r rr)
qed


lemma roundtrip_yaw_block:
  "tf_Matrix3x3 (quat_of_mat3 (Mat3 0 (- 1) 0 1 0 0 0 0 1)) = Mat3 0 (- 1) 0 1 0 0 0 0 1"
proof -
  define r where "r = sqrt (2 :: real)"
  have r: "r * r = 2" "r \<noteq> 0" by (simp_all add: r_def)
  have q: "quat_of_mat3 (Mat3 0 (- 1) 0 1 0 0 0 0 1) =
      \<lparr>qw = r / 2, qx = 0, qy = 0, qz = 1 / r\<rparr>"
    by (simp add: r_def Let_def)
  have rr: "r * (r * x) = 2 * x" for x
    using r(1) by (simp flip: mult.assoc)
  show ?thesis
    unfolding q by (simp add: tf_Matrix3x3_def Let_def r rr)
qed

lemma roundtrip_fused_block:
  "tf_Matrix3x3 (quat_of_mat3 (Mat3 0 (- (3 / 5)) (4 / 5) 1 0 0 0 (4 / 5) (3 / 5))) =
     Mat3 0 (- (3 / 5)) (4 / 5) 1 0 0 0 (4 / 5) (3 / 5)"
proof -
  define r where "r = sqrt (8 / 5 :: real)"
  have r: "r * r = 8 / 5" "r \<noteq> 0" by (simp_all add: r_def)
  have q: "quat_of_mat3 (Mat3 0 (- (3 / 5)) (4 / 5) 1 0 0 0 (4 / 5) (3 / 5)) =
      \<lparr>qw = r / 2, qx = (2 / 5) / r, qy = (2 / 5) / r, qz = (4 / 5) / r\<rparr>"
    by (simp add: r_def Let_def)
  have rr: "r * (r * x) = 8 / 5 * x" for x
    using r(1) by (simp flip: mult.assoc)
  show ?thesis
    unfolding q by (simp add: tf_Matrix3x3_def Let_def r rr)
qed

lemma cos_arcsin_4_5: "cos (arcsin (4 / 5)) = 3 / 5"
proof -
  have "sqrt (9 / 25) = 3 / 5"
    by (rule real_sqrt_unique) (simp_all add: power2_eq_square)
  then show ?thesis by (simp add: cos_arcsin power2_eq_square)
qed

lemma rpy_pitch_block:
  "rpy_of_block (Mat3 (3 / 5) 0 (4 / 5) 0 1 0 (- (4 / 5)) 0 (3 / 5)) = (0, arcsin (4 / 5), 0)"
  unfolding rpy_of_block_def roundtrip_pitch_block
  by (simp add: arcsin_minus cos_arcsin_4_5 atan2_def)

lemma rpy_yaw_block:
  "rpy_of_block (Mat3 0 (- 1) 0 1 0 0 0 0 1) = (0, 0, pi / 2)"
  unfolding rpy_of_block_def roundtrip_yaw_block
  by (simp add: atan2_def)

lemma rpy_fused_block:
  "rpy_of_block (Mat3 0 (- (3 / 5)) (4 / 5) 1 0 0 0 (4 / 5) (3 / 5)) = (arctan (4 / 3), 0, pi / 2)"
  unfolding rpy_of_block_def roundtrip_fused_block
  by (simp add: atan2_def)

lemma fused_block:
  "block3 (fuse \<lparr>block3 = Mat3 0 (- 1) 0 1 0 0 0 0 1, col3 = Vec3 (1 / 10) 0 0\<rparr>
             \<lparr>block3 = Mat3 (3 / 5) 0 (4 / 5) 0 1 0 (- (4 / 5)) 0 (3 / 5), col3 = vec3_zero\<rparr>) =
     Mat3 0 (- (3 / 5)) (4 / 5) 1 0 0 0 (4 / 5) (3 / 5)"
  unfolding block3_fuse
  by (simp add: rpy_pitch_block rpy_yaw_block AngleAxis_UnitX_def AngleAxis_UnitY_def
      AngleAxis_UnitZ_def cos_arcsin_4_5)

lemma angles_differ: "arctan (4 / 3) \<noteq> 0" "arcsin (4 / 5) \<noteq> 0"
proof -
  have "arctan (4 / 3) > arctan 0" by (simp only: arctan_less_iff)
  then show "arctan (4 / 3) \<noteq> 0" by simp
  show "arcsin (4 / 5) \<noteq> 0"
  proof
    assume a: "arcsin (4 / 5) = 0"
    have "sin (arcsin (4 / 5)) = (4 / 5 :: real)" by simp
    then have "sin 0 = (4 / 5 :: real)" by (simp only: a)
    then show False by simp
  qed
qed


text \<open>
  Claim C1, evaluated at one input. The registration returns a quarter turn about Z
  with translation \<open>(0.1, 0, 0)\<close>; the angles the code reads from it are roll 0,
  pitch 0, yaw \<open>\<pi>/2\<close>. The queued IMU change in attitude is a rotation about Y with
  sine \<open>4/5\<close>; the angles read from it are roll 0, pitch \<open>arcsin (4/5)\<close>, yaw 0.
  \<open>UpdateICP\<close> stores the registration's translation and the rotation
  \<open>Rx(0) * Ry(arcsin (4/5)) * Rz(\<pi>/2)\<close>. Read back in the same way, that rotation
  has roll \<open>arctan (4/3)\<close>, pitch 0 and yaw \<open>\<pi>/2\<close>: the yaw is the registration's,
  but the roll and the pitch are not those of the IMU change in attitude (0 and
  \<open>arcsin (4/5)\<close>, both different from what is read back). \<open>getRPY\<close> reads angles
  about fixed axes, those of \<open>Rz(yaw) * Ry(pitch) * Rx(roll)\<close>, and lines 369 to 371
  multiply in the opposite order.
\<close>

theorem fused_rotation_angles:
  "rpy_of_block (Mat3 (3 / 5) 0 (4 / 5) 0 1 0 (- (4 / 5)) 0 (3 / 5)) = (0, arcsin (4 / 5), 0) \<and>
   rpy_of_block (Mat3 0 (- 1) 0 1 0 0 0 0 1) = (0, 0, pi / 2) \<and>
   (case UpdateICP
           (example_collaborators \<lparr>block3 = Mat3 0 (- 1) 0 1 0 0 0 0 1, col3 = Vec3 (1 / 10) 0 0\<rparr>)
           (example_odometry\<lparr>initialized := True, imu_attitude_deque :=
              [\<lparr>block3 = Mat3 (3 / 5) 0 (4 / 5) 0 1 0 (- (4 / 5)) 0 (3 / 5), col3 = vec3_zero\<rparr>]\<rparr>) of
      Inl e \<Rightarrow> False
    | Inr (s', b) \<Rightarrow>
        translation (incremental_estimate s') = Vec3 (1 / 10) 0 0 \<and>
        rotation (incremental_estimate s') = Mat3 0 (- (3 / 5)) (4 / 5) 1 0 0 0 (4 / 5) (3 / 5) \<and>
        rpy_of_block (rotation (incremental_estimate s')) = (arctan (4 / 3), 0, pi / 2)) \<and>
   arctan (4 / 3) \<noteq> 0 \<and> arcsin (4 / 5) \<noteq> 0"
proof -
  let ?T = "\<lparr>block3 = Mat3 0 (- 1) 0 1 0 0 0 0 1, col3 = Vec3 (1 / 10) 0 0\<rparr>"
  let ?D = "\<lparr>block3 = Mat3 (3 / 5) 0 (4 / 5) 0 1 0 (- (4 / 5)) 0 (3 / 5), col3 = vec3_zero\<rparr>"
  let ?L = "example_collaborators ?T"
  let ?s = "example_odometry\<lparr>initialized := True, imu_attitude_deque := [?D]\<rparr>"
  let ?e = "example_odometry\<lparr>initialized := True, imu_attitude_deque := []\<rparr>"
  have use: "use_imu_data example_odometry" by (simp add: example_odometry_def)
  have icp: "icp_align ?L q r = ?T" for q r
    by (simp add: example_collaborators_def)
  have u: "UpdateICP ?L ?s =
      Inr (integrate ?L ?e (fuse ?T ?D), True)"
    by (simp add: UpdateICP_cases use icp)
  have inc: "incremental_estimate (integrate ?L ?e (fuse ?T ?D)) =
      \<lparr>translation = Vec3 (1 / 10) 0 0,
       rotation = Mat3 0 (- (3 / 5)) (4 / 5) 1 0 0 0 (4 / 5) (3 / 5)\<rparr>"
    unfolding incremental_integrate fused_block col3_fuse by simp
  show ?thesis
    unfolding u rpy_pitch_block rpy_yaw_block
    by (simp only: sum.case prod.case inc transform3.simps rpy_fused_block angles_differ
        simp_thms)
qed

end
